theory Spec2Isabelle
  imports Complex_Main
begin

section \<open>QuickA11y audit: the content script's detection core\<close>

text \<open>
  This theory embeds \<^verbatim>\<open>src/content/content.js\<close> in two parts. The first part has the
  colour parser, the contrast computation and the contrast, heading and language detectors
  as functions of what they read of the page. The second part has the page itself, the
  marks the detectors leave on it, and the audit as a whole.

  Conventions of the embedding.
  \<^item> A JavaScript string is a \<^typ>\<open>string\<close>: a list of code units below 256. Characters
    beyond Latin-1 are outside the model.
  \<^item> A JavaScript number is a \<open>jsnum\<close>: \<open>NaN\<close>, a real, or one of the two infinities.
    A result whose exact value is out of the range of the doubles is an infinity, and
    \<^verbatim>\<open>parseInt\<close> rounds an integer that no double represents. Otherwise values are exact:
    the rounding of a fraction to the nearest double is not represented, neither for a
    constant of the source nor for a result, and zero has no sign.
  \<^item> A function that can throw returns a sum whose left summand is the error.
\<close>

subsection \<open>Characters and strings\<close>

definition is_digit :: "char \<Rightarrow> bool" where
  "is_digit c \<longleftrightarrow> c \<in> set ''0123456789''"

text \<open>The class \<^verbatim>\<open>\s\<close> and the characters removed by \<^verbatim>\<open>trim\<close>, below code 256:
  tab, line feed, vertical tab, form feed, carriage return, space, no-break space.\<close>

definition is_space :: "char \<Rightarrow> bool" where
  "is_space c \<longleftrightarrow> c \<in> {CHR 0x09, CHR 0x0A, CHR 0x0B, CHR 0x0C, CHR 0x0D, CHR 0x20, CHR 0xA0}"

definition trim :: "string \<Rightarrow> string" where
  "trim s = rev (dropWhile is_space (rev (dropWhile is_space s)))"

definition lower_char :: "char \<Rightarrow> char" where
  "lower_char c =
     (let n = (of_char c :: nat)
      in if (65 \<le> n \<and> n \<le> 90) \<or> (192 \<le> n \<and> n \<le> 222 \<and> n \<noteq> 215)
         then char_of (n + 32) else c)"

definition toLowerCase :: "string \<Rightarrow> string" where
  "toLowerCase s = map lower_char s"

text \<open>The value of a character as a digit in a radix up to 36; 36 when it is no digit.\<close>

definition digit_value :: "char \<Rightarrow> nat" where
  "digit_value c =
     (let n = (of_char c :: nat)
      in if 48 \<le> n \<and> n \<le> 57 then n - 48
         else if 97 \<le> n \<and> n \<le> 122 then n - 87
         else if 65 \<le> n \<and> n \<le> 90 then n - 55
         else 36)"

definition digits_value :: "nat \<Rightarrow> string \<Rightarrow> int" where
  "digits_value radix ds = foldl (\<lambda>acc c. acc * int radix + int (digit_value c)) 0 ds"

subsection \<open>Numbers\<close>

datatype jsnum = NaN | Num real | PosInf | NegInf

text \<open>
  The doubles end at \<open>2 ^ 1024 - 2 ^ 971\<close>. Under rounding to nearest, ties to even, a
  result whose exact value is at least \<open>2 ^ 1024 - 2 ^ 970\<close> in magnitude is stored as an
  infinity; \<open>stored x\<close> is the number that a result of exact value \<open>x\<close> is stored as.
\<close>

definition overflow_threshold :: real where
  "overflow_threshold = 2 ^ 1024 - 2 ^ 970"

definition stored :: "real \<Rightarrow> jsnum" where
  "stored x = (if overflow_threshold \<le> x then PosInf
               else if x \<le> - overflow_threshold then NegInf
               else Num x)"

fun js_neg :: "jsnum \<Rightarrow> jsnum" where
  "js_neg NaN = NaN"
| "js_neg (Num x) = Num (- x)"
| "js_neg PosInf = NegInf"
| "js_neg NegInf = PosInf"

text \<open>Sum and difference: two infinities of opposite signs add up to \<open>NaN\<close>.\<close>

fun js_add :: "jsnum \<Rightarrow> jsnum \<Rightarrow> jsnum" where
  "js_add (Num x) (Num y) = stored (x + y)"
| "js_add NaN _ = NaN"
| "js_add _ NaN = NaN"
| "js_add PosInf NegInf = NaN"
| "js_add NegInf PosInf = NaN"
| "js_add PosInf _ = PosInf"
| "js_add _ PosInf = PosInf"
| "js_add NegInf _ = NegInf"
| "js_add _ NegInf = NegInf"

definition js_sub :: "jsnum \<Rightarrow> jsnum \<Rightarrow> jsnum" where
  "js_sub x y = js_add x (js_neg y)"

text \<open>The sign of a number, and the infinity of a sign; a product with an infinity is the
  infinity of the product of the signs, \<open>NaN\<close> when the other factor is zero.\<close>

fun js_sign :: "jsnum \<Rightarrow> int" where
  "js_sign (Num x) = (if x = 0 then 0 else if 0 < x then 1 else - 1)"
| "js_sign PosInf = 1"
| "js_sign NegInf = - 1"
| "js_sign NaN = 0"

definition infinity_of :: "int \<Rightarrow> jsnum" where
  "infinity_of s = (if s = 0 then NaN else if 0 < s then PosInf else NegInf)"

fun js_mul :: "jsnum \<Rightarrow> jsnum \<Rightarrow> jsnum" where
  "js_mul (Num x) (Num y) = stored (x * y)"
| "js_mul NaN _ = NaN"
| "js_mul _ NaN = NaN"
| "js_mul x y = infinity_of (js_sign x * js_sign y)"

text \<open>
  Quotient. A zero of the model is the positive zero: a non-zero number over zero is the
  infinity of its sign and zero over zero is \<open>NaN\<close>. A finite number over an infinity is
  zero, an infinity over an infinity is \<open>NaN\<close>. No divisor of this program is zero (see
  \<open>getRelativeLuminance_range\<close> for the one that is computed).
\<close>

fun js_div :: "jsnum \<Rightarrow> jsnum \<Rightarrow> jsnum" where
  "js_div (Num x) (Num y) = (if y = 0 then infinity_of (js_sign (Num x)) else stored (x / y))"
| "js_div NaN _ = NaN"
| "js_div _ NaN = NaN"
| "js_div (Num x) _ = Num 0"
| "js_div x (Num y) = (if y < 0 then js_neg x else x)"
| "js_div _ _ = NaN"

text \<open>
  \<^verbatim>\<open>Math.pow(base, exponent)\<close>, case by case as the language defines it: an exponent
  \<open>NaN\<close> gives \<open>NaN\<close> and an exponent zero gives 1, whatever the base; then a base
  \<open>NaN\<close> gives \<open>NaN\<close>; an infinite or zero base gives an infinity or zero according to
  the sign of the exponent (and to its being an odd integer, for the negative infinity); an
  infinite exponent compares the magnitude of the base with 1; a negative base needs an
  integer exponent.
\<close>

definition odd_integer :: "real \<Rightarrow> bool" where
  "odd_integer y \<longleftrightarrow> of_int \<lfloor>y\<rfloor> = y \<and> odd \<lfloor>y\<rfloor>"

fun js_pow :: "jsnum \<Rightarrow> jsnum \<Rightarrow> jsnum" where
  "js_pow _ NaN = NaN"
| "js_pow base (Num y) =
     (if y = 0 then Num 1
      else (case base of
              NaN \<Rightarrow> NaN
            | PosInf \<Rightarrow> if 0 < y then PosInf else Num 0
            | NegInf \<Rightarrow> if 0 < y then (if odd_integer y then NegInf else PosInf) else Num 0
            | Num x \<Rightarrow>
                if x = 0 then (if 0 < y then Num 0 else PosInf)
                else if 0 < x then stored (x powr y)
                else if of_int \<lfloor>y\<rfloor> = y then stored (x powi \<lfloor>y\<rfloor>)
                else NaN))"
| "js_pow base PosInf =
     (case base of
        NaN \<Rightarrow> NaN
      | Num x \<Rightarrow> if 1 < \<bar>x\<bar> then PosInf else if \<bar>x\<bar> = 1 then NaN else Num 0
      | _ \<Rightarrow> PosInf)"
| "js_pow base NegInf =
     (case base of
        NaN \<Rightarrow> NaN
      | Num x \<Rightarrow> if 1 < \<bar>x\<bar> then Num 0 else if \<bar>x\<bar> = 1 then NaN else PosInf
      | _ \<Rightarrow> Num 0)"

text \<open>\<^verbatim>\<open>Math.max\<close> and \<^verbatim>\<open>Math.min\<close> of two numbers: \<open>NaN\<close> as soon as one is.\<close>

fun js_max :: "jsnum \<Rightarrow> jsnum \<Rightarrow> jsnum" where
  "js_max (Num x) (Num y) = Num (max x y)"
| "js_max NaN _ = NaN"
| "js_max _ NaN = NaN"
| "js_max PosInf _ = PosInf"
| "js_max _ PosInf = PosInf"
| "js_max NegInf y = y"
| "js_max x NegInf = x"

fun js_min :: "jsnum \<Rightarrow> jsnum \<Rightarrow> jsnum" where
  "js_min (Num x) (Num y) = Num (min x y)"
| "js_min NaN _ = NaN"
| "js_min _ NaN = NaN"
| "js_min NegInf _ = NegInf"
| "js_min _ NegInf = NegInf"
| "js_min PosInf y = y"
| "js_min x PosInf = x"

text \<open>Comparisons are false as soon as one side is \<open>NaN\<close>.\<close>

fun js_lt :: "jsnum \<Rightarrow> jsnum \<Rightarrow> bool" where
  "js_lt (Num x) (Num y) = (x < y)"
| "js_lt NegInf (Num y) = True"
| "js_lt NegInf PosInf = True"
| "js_lt (Num x) PosInf = True"
| "js_lt _ _ = False"

fun js_le :: "jsnum \<Rightarrow> jsnum \<Rightarrow> bool" where
  "js_le (Num x) (Num y) = (x \<le> y)"
| "js_le NaN _ = False"
| "js_le _ NaN = False"
| "js_le NegInf _ = True"
| "js_le _ PosInf = True"
| "js_le _ _ = False"

definition js_gt :: "jsnum \<Rightarrow> jsnum \<Rightarrow> bool" where
  "js_gt x y = js_lt y x"

definition js_ge :: "jsnum \<Rightarrow> jsnum \<Rightarrow> bool" where
  "js_ge x y = js_le y x"

text \<open>
  The number for a non-negative integer: the nearest double, ties to even. An integer of
  at most 53 bits is a double. A longer one is rounded to 53 bits: with \<open>k\<close> the number
  of bits beyond 53, it is divided by \<open>2 ^ k\<close>, rounded to an integer, and multiplied by
  \<open>2 ^ k\<close> again.
\<close>

function bit_length :: "int \<Rightarrow> nat" where
  "bit_length n = (if n \<le> 0 then 0 else Suc (bit_length (n div 2)))"
  by pat_completeness auto

termination bit_length
  by (relation "measure nat") auto

declare bit_length.simps [simp del]

definition round_half_even :: "int \<Rightarrow> int \<Rightarrow> int" where
  "round_half_even n d =
     (let q = n div d; rest = n mod d
      in if d < 2 * rest \<or> (2 * rest = d \<and> odd q) then q + 1 else q)"

definition double_of_int :: "int \<Rightarrow> jsnum" where
  "double_of_int n =
     (let d = 2 ^ (bit_length n - 53)
      in stored (of_int (round_half_even n d * d)))"

text \<open>
  \<^verbatim>\<open>parseInt(string, radix)\<close>: leading white space is skipped, a sign is read, a radix
  that is absent (\<open>None\<close>) or 16 lets a prefix \<^verbatim>\<open>0x\<close> select base 16, and the longest
  run of digits of the radix is the value; no digit at all gives \<open>NaN\<close>. The language
  lets an implementation replace the decimal digits after the twentieth by zeros before
  it rounds; that is not done here.
\<close>

definition parseInt :: "string \<Rightarrow> nat option \<Rightarrow> jsnum" where
  "parseInt s radix =
     (let s1 = dropWhile is_space s;
          neg = (case s1 of c # _ \<Rightarrow> c = CHR ''-'' | [] \<Rightarrow> False);
          s2 = (case s1 of c # t \<Rightarrow> if c = CHR ''-'' \<or> c = CHR ''+'' then t else s1 | [] \<Rightarrow> s1);
          r0 = (case radix of None \<Rightarrow> 0 | Some k \<Rightarrow> k);
          hex = ((r0 = 0 \<or> r0 = 16) \<and> (take 2 s2 = ''0x'' \<or> take 2 s2 = ''0X''));
          rdx = (if hex then 16 else if r0 = 0 then 10 else r0);
          s3 = (if hex then drop 2 s2 else s2);
          ds = takeWhile (\<lambda>c. digit_value c < rdx) s3
      in if r0 \<noteq> 0 \<and> (r0 < 2 \<or> 36 < r0) then NaN
         else if ds = [] then NaN
         else if neg then js_neg (double_of_int (digits_value rdx ds))
         else double_of_int (digits_value rdx ds))"

text \<open>
  \<^verbatim>\<open>parseFloat(string)\<close>: white space, a sign, then \<^verbatim>\<open>Infinity\<close> or the longest prefix
  that is a decimal literal (digits, a fraction, an exponent). The value of the literal is
  kept exact unless it overflows.
\<close>

definition exponent_part :: "string \<Rightarrow> int" where
  "exponent_part s =
     (case s of
        [] \<Rightarrow> 0
      | c # t \<Rightarrow>
          if c = CHR ''e'' \<or> c = CHR ''E'' then
            (let eneg = (case t of d # _ \<Rightarrow> d = CHR ''-'' | [] \<Rightarrow> False);
                 t2 = (case t of d # u \<Rightarrow> if d = CHR ''-'' \<or> d = CHR ''+'' then u else t | [] \<Rightarrow> t);
                 ds = takeWhile is_digit t2
             in if ds = [] then 0
                else (if eneg then - 1 else 1) * digits_value 10 ds)
          else 0)"

definition parseFloat :: "string \<Rightarrow> jsnum" where
  "parseFloat s =
     (let s1 = dropWhile is_space s;
          neg = (case s1 of c # _ \<Rightarrow> c = CHR ''-'' | [] \<Rightarrow> False);
          s2 = (case s1 of c # t \<Rightarrow> if c = CHR ''-'' \<or> c = CHR ''+'' then t else s1 | [] \<Rightarrow> s1);
          ip = takeWhile is_digit s2;
          r1 = dropWhile is_digit s2;
          dot = (case r1 of c # _ \<Rightarrow> c = CHR ''.'' | [] \<Rightarrow> False);
          fp = (if dot then takeWhile is_digit (tl r1) else []);
          r2 = (if dot then dropWhile is_digit (tl r1) else r1);
          m = of_int (digits_value 10 ip) + of_int (digits_value 10 fp) / 10 ^ length fp
      in if take 8 s2 = ''Infinity'' then (if neg then NegInf else PosInf)
         else if ip = [] \<and> fp = [] then NaN
         else stored ((if neg then - 1 else 1) * m * 10 powi exponent_part r2))"

subsection \<open>Colour model\<close>

definition RGB_MAX_VALUE :: real where "RGB_MAX_VALUE = 255"
definition SRGB_THRESHOLD :: real where "SRGB_THRESHOLD = 0.03928"
definition SRGB_LINEAR_DIVISOR :: real where "SRGB_LINEAR_DIVISOR = 12.92"
definition SRGB_OFFSET :: real where "SRGB_OFFSET = 0.055"
definition SRGB_GAMMA_DIVISOR :: real where "SRGB_GAMMA_DIVISOR = 1.055"
definition SRGB_GAMMA_EXPONENT :: real where "SRGB_GAMMA_EXPONENT = 2.4"
definition LUMINANCE_RED_COEFFICIENT :: real where "LUMINANCE_RED_COEFFICIENT = 0.2126"
definition LUMINANCE_GREEN_COEFFICIENT :: real where "LUMINANCE_GREEN_COEFFICIENT = 0.7152"
definition LUMINANCE_BLUE_COEFFICIENT :: real where "LUMINANCE_BLUE_COEFFICIENT = 0.0722"
definition CONTRAST_OFFSET :: real where "CONTRAST_OFFSET = 0.05"

definition getRGBLuminance :: "jsnum \<Rightarrow> jsnum" where
  "getRGBLuminance colorValue =
     (let val = js_div colorValue (Num RGB_MAX_VALUE)
      in if js_le val (Num SRGB_THRESHOLD)
         then js_div val (Num SRGB_LINEAR_DIVISOR)
         else js_pow (js_div (js_add val (Num SRGB_OFFSET)) (Num SRGB_GAMMA_DIVISOR))
                (Num SRGB_GAMMA_EXPONENT))"

definition getRelativeLuminance :: "jsnum \<Rightarrow> jsnum \<Rightarrow> jsnum \<Rightarrow> jsnum" where
  "getRelativeLuminance rv gv bv =
     (let rLum = getRGBLuminance rv;
          gLum = getRGBLuminance gv;
          bLum = getRGBLuminance bv
      in js_add
           (js_add (js_mul (Num LUMINANCE_RED_COEFFICIENT) rLum)
                   (js_mul (Num LUMINANCE_GREEN_COEFFICIENT) gLum))
           (js_mul (Num LUMINANCE_BLUE_COEFFICIENT) bLum))"

subsection \<open>CSS colour parser\<close>

text \<open>
  The object a successful parse returns. \<open>a\<close> is \<open>Num 1\<close> unless an alpha was captured.
\<close>

record RGBAColor =
  r :: jsnum
  g :: jsnum
  b :: jsnum
  a :: jsnum

text \<open>
  What \<^verbatim>\<open>parseColor\<close> can return. The table of named colours is an object literal, so
  the look-up \<^verbatim>\<open>colorMap[key]\<close> also finds the members every object inherits from
  \<^verbatim>\<open>Object.prototype\<close>; \<open>Inherited key\<close> is such a member (a function, or the prototype
  object itself): it is truthy and has no property \<^verbatim>\<open>r\<close>, \<^verbatim>\<open>g\<close>, \<^verbatim>\<open>b\<close> or \<^verbatim>\<open>a\<close>.
\<close>

datatype parsed = Null | Color RGBAColor | Inherited string

definition object_prototype_keys :: "string list" where
  "object_prototype_keys =
     [''constructor'', ''__defineGetter__'', ''__defineSetter__'', ''hasOwnProperty'',
      ''__lookupGetter__'', ''__lookupSetter__'', ''isPrototypeOf'', ''propertyIsEnumerable'',
      ''toString'', ''valueOf'', ''__proto__'', ''toLocaleString'']"

definition colorMap :: "(string \<times> RGBAColor) list" where
  "colorMap =
     [(''white'', \<lparr>r = Num 255, g = Num 255, b = Num 255, a = Num 1\<rparr>),
      (''black'', \<lparr>r = Num 0, g = Num 0, b = Num 0, a = Num 1\<rparr>),
      (''red'', \<lparr>r = Num 255, g = Num 0, b = Num 0, a = Num 1\<rparr>),
      (''green'', \<lparr>r = Num 0, g = Num 128, b = Num 0, a = Num 1\<rparr>),
      (''blue'', \<lparr>r = Num 0, g = Num 0, b = Num 255, a = Num 1\<rparr>)]"

text \<open>\<^verbatim>\<open>colorMap[key] || null\<close>.\<close>

definition colorMap_lookup :: "string \<Rightarrow> parsed" where
  "colorMap_lookup key =
     (case map_of colorMap key of
        Some c \<Rightarrow> Color c
      | None \<Rightarrow> if key \<in> set object_prototype_keys then Inherited key else Null)"

text \<open>
  The pattern
  \<^verbatim>\<open>/rgba?\(\s*(\d+)\s*,\s*(\d+)\s*,\s*(\d+)\s*(?:,\s*([\d.]+)\s*)?\)/\<close>
  is matched piece by piece. Each greedy piece is followed by a piece that starts with a
  character outside its class, so giving back characters never helps and the first way
  of matching at a position is the only one. \<open>rgb_at\<close> matches at the head of the
  string and returns the four groups (the fourth is absent when the alpha part did not
  take part in the match); \<open>rgbMatch\<close> is the search of \<^verbatim>\<open>String.prototype.match\<close>:
  the leftmost position where the pattern matches.
\<close>

definition expect :: "string \<Rightarrow> string \<Rightarrow> string option" where
  "expect p s = (if take (length p) s = p then Some (drop (length p) s) else None)"

definition skip_spaces :: "string \<Rightarrow> string" where
  "skip_spaces s = dropWhile is_space s"

definition capture :: "(char \<Rightarrow> bool) \<Rightarrow> string \<Rightarrow> (string \<times> string) option" where
  "capture cls s =
     (let m = takeWhile cls s in if m = [] then None else Some (m, dropWhile cls s))"

definition alpha_part :: "string \<Rightarrow> (string \<times> string) option" where
  "alpha_part s =
     (case expect '','' s of
        None \<Rightarrow> None
      | Some s1 \<Rightarrow>
          (case capture (\<lambda>c. is_digit c \<or> c = CHR ''.'') (skip_spaces s1) of
             None \<Rightarrow> None
           | Some (g4, s2) \<Rightarrow> Some (g4, skip_spaces s2)))"

definition rgb_tail :: "string \<Rightarrow> string option option" where
  "rgb_tail s =
     (case alpha_part s of
        Some (g4, s1) \<Rightarrow>
          (case expect '')'' s1 of
             Some _ \<Rightarrow> Some (Some g4)
           | None \<Rightarrow> (case expect '')'' s of Some _ \<Rightarrow> Some None | None \<Rightarrow> None))
      | None \<Rightarrow> (case expect '')'' s of Some _ \<Rightarrow> Some None | None \<Rightarrow> None))"

definition component :: "string \<Rightarrow> (string \<times> string) option" where
  "component s =
     (case capture is_digit (skip_spaces s) of
        None \<Rightarrow> None
      | Some (d, s1) \<Rightarrow> Some (d, skip_spaces s1))"

definition rgb_at :: "string \<Rightarrow> (string \<times> string \<times> string \<times> string option) option" where
  "rgb_at s =
     (case expect ''rgb'' s of
        None \<Rightarrow> None
      | Some s0 \<Rightarrow>
     (case expect ''('' (case expect ''a'' s0 of Some s1 \<Rightarrow> s1 | None \<Rightarrow> s0) of
        None \<Rightarrow> None
      | Some s2 \<Rightarrow>
     (case component s2 of
        None \<Rightarrow> None
      | Some (g1, s3) \<Rightarrow>
     (case expect '','' s3 of
        None \<Rightarrow> None
      | Some s4 \<Rightarrow>
     (case component s4 of
        None \<Rightarrow> None
      | Some (g2, s5) \<Rightarrow>
     (case expect '','' s5 of
        None \<Rightarrow> None
      | Some s6 \<Rightarrow>
     (case component s6 of
        None \<Rightarrow> None
      | Some (g3, s7) \<Rightarrow>
     (case rgb_tail s7 of
        None \<Rightarrow> None
      | Some g4 \<Rightarrow> Some (g1, g2, g3, g4)))))))))"

fun rgbMatch :: "string \<Rightarrow> (string \<times> string \<times> string \<times> string option) option" where
  "rgbMatch [] = rgb_at []"
| "rgbMatch (c # cs) =
     (case rgb_at (c # cs) of Some m \<Rightarrow> Some m | None \<Rightarrow> rgbMatch cs)"

text \<open>\<^verbatim>\<open>/^#([0-9a-f]{3}|[0-9a-f]{6})$/i\<close>: the whole string is \<^verbatim>\<open>#\<close> and three or six
  hexadecimal digits of either case. The value is group 1.\<close>

definition is_hex_digit :: "char \<Rightarrow> bool" where
  "is_hex_digit c \<longleftrightarrow> c \<in> set ''0123456789abcdefABCDEF''"

definition HEX_SHORT_LENGTH :: nat where "HEX_SHORT_LENGTH = 3"
definition HEX_BLUE_START_INDEX :: nat where "HEX_BLUE_START_INDEX = 4"
definition HEX_COMPONENT_LENGTH :: nat where "HEX_COMPONENT_LENGTH = 2"
definition HEX_RADIX :: nat where "HEX_RADIX = 16"

definition hexMatch :: "string \<Rightarrow> string option" where
  "hexMatch s =
     (case s of
        [] \<Rightarrow> None
      | c # h \<Rightarrow>
          if c = CHR ''#'' \<and> (length h = 3 \<or> length h = 6) \<and> list_all is_hex_digit h
          then Some h else None)"

text \<open>\<^verbatim>\<open>hex.slice(i, j)\<close> for \<open>0 \<le> i \<le> j\<close>.\<close>

definition slice :: "nat \<Rightarrow> nat \<Rightarrow> string \<Rightarrow> string" where
  "slice i j s = take (j - i) (drop i s)"

definition parseColor :: "string \<Rightarrow> parsed" where
  "parseColor color =
     (if color = [] \<or> color = ''transparent'' then Null
      else
        (case rgbMatch color of
           Some (g1, g2, g3, g4) \<Rightarrow>
             Color \<lparr>r = parseInt g1 None, g = parseInt g2 None, b = parseInt g3 None,
                    a = (case g4 of Some x \<Rightarrow> parseFloat x | None \<Rightarrow> Num 1)\<rparr>
         | None \<Rightarrow>
             (case hexMatch color of
                Some h \<Rightarrow>
                  (let hex = (if length h = HEX_SHORT_LENGTH
                              then concat (map (\<lambda>c. [c, c]) h) else h)
                   in Color
                        \<lparr>r = parseInt (slice 0 HEX_COMPONENT_LENGTH hex) (Some HEX_RADIX),
                         g = parseInt (slice HEX_COMPONENT_LENGTH (HEX_COMPONENT_LENGTH * 2) hex)
                               (Some HEX_RADIX),
                         b = parseInt (slice HEX_BLUE_START_INDEX
                                         (HEX_BLUE_START_INDEX + HEX_COMPONENT_LENGTH) hex)
                               (Some HEX_RADIX),
                         a = Num 1\<rparr>)
              | None \<Rightarrow> colorMap_lookup (toLowerCase color))))"

text \<open>Reading a colour component off what \<^verbatim>\<open>parseColor\<close> returned: a member inherited
  from \<^verbatim>\<open>Object.prototype\<close> has no such property, and \<^verbatim>\<open>undefined\<close> is \<open>NaN\<close> in
  arithmetic and makes every comparison false.\<close>

definition prop_of :: "(RGBAColor \<Rightarrow> jsnum) \<Rightarrow> parsed \<Rightarrow> jsnum" where
  "prop_of field p = (case p of Color c \<Rightarrow> field c | _ \<Rightarrow> NaN)"

definition calculateContrastRatio :: "string \<Rightarrow> string \<Rightarrow> jsnum" where
  "calculateContrastRatio fgColor bgColor =
     (let fg = parseColor fgColor;
          bg = parseColor bgColor
      in if fg = Null \<or> bg = Null then Num 0
         else
           (let fgLum = getRelativeLuminance (prop_of r fg) (prop_of g fg) (prop_of b fg);
                bgLum = getRelativeLuminance (prop_of r bg) (prop_of g bg) (prop_of b bg);
                lighter = js_max fgLum bgLum;
                darker = js_min fgLum bgLum
            in js_div (js_add lighter (Num CONTRAST_OFFSET)) (js_add darker (Num CONTRAST_OFFSET))))"

subsection \<open>The document as the detectors see it\<close>

text \<open>
  The detectors query the page through \<^verbatim>\<open>document.querySelectorAll\<close> and read, of each
  element, its tag name, attributes, text content, child nodes and computed style. A
  document is the list of its elements in tree order, each with what can be read of it.
  Tag names are those of HTML elements, in upper case as \<^verbatim>\<open>tagName\<close> gives them, and a
  type selector is the list of the upper-case names it selects.

  The detectors also mark the elements they flag (two \<^verbatim>\<open>data-accessibility-*\<close>
  attributes, an outline, a badge appended to the parent). None of the functions below
  reads a marker attribute or an outline, and a badge changes the text content of the
  ancestors of the flagged element only, which precede it in tree order and so were
  visited before; the marking is left out of this part and is the subject of the second
  part.
\<close>

record ComputedStyle =
  display :: string
  visibility :: string
  opacity :: string
  color :: string
  backgroundColor :: string
  fontSize :: string
  fontWeight :: string

datatype childNode = ChildNode (nodeType: nat) (nodeText: string)

record HTMLElement =
  tagName :: string
  attributes :: "(string \<times> string) list"
  textContent :: string
  childNodes :: "childNode list"
  computedStyle :: ComputedStyle

type_synonym document = "HTMLElement list"

definition querySelectorAll :: "document \<Rightarrow> string list \<Rightarrow> HTMLElement list" where
  "querySelectorAll doc tags = filter (\<lambda>e. tagName e \<in> set tags) doc"

definition querySelector :: "document \<Rightarrow> string list \<Rightarrow> HTMLElement option" where
  "querySelector doc tags =
     (case querySelectorAll doc tags of [] \<Rightarrow> None | e # _ \<Rightarrow> Some e)"

definition hasAttribute :: "HTMLElement \<Rightarrow> string \<Rightarrow> bool" where
  "hasAttribute e name \<longleftrightarrow> map_of (attributes e) name \<noteq> None"

fun string_of_nat :: "nat \<Rightarrow> string" where
  "string_of_nat n =
     (if n < 10 then [char_of (48 + n)]
      else string_of_nat (n div 10) @ [char_of (48 + n mod 10)])"

declare string_of_nat.simps [simp del]

subsection \<open>Issues and category results\<close>

text \<open>The three severities, written in the source as the French words for high, medium
  and low.\<close>

datatype severity = Elevee | Moyenne | Faible

text \<open>
  The \<^verbatim>\<open>issue\<close> text of a finding, with the values the source interpolates into it.
  The \<^verbatim>\<open>explanation\<close> text is a constant of each kind (of each kind and of the
  large-text flag for contrast) and is not carried separately.
  \<^item> \<open>NoH1\<close>: no H1 title found on the page.
  \<^item> \<open>MultipleH1 n\<close>: \<open>n\<close> H1 titles found (one recommended).
  \<^item> \<open>LevelSkip p l\<close>: heading level skipped, from H\<open>p\<close> to H\<open>l\<close>.
  \<^item> \<open>EmptyHeading\<close>: empty title.
  \<^item> \<open>LowContrast ratio minimum large\<close>: insufficient contrast, \<open>ratio\<close> below \<open>minimum\<close>.
  \<^item> \<open>LangMissing\<close>: attribute lang missing on the html element.
  \<^item> \<open>MissingAlt\<close>: alternative text missing.
  \<^item> \<open>SvgNoDescription\<close>: inline SVG without description.
  \<^item> \<open>LinkNoText\<close>: link without descriptive text.
  \<^item> \<open>LinkNotDescriptive\<close>: link text not descriptive.
  \<^item> \<open>FieldNoLabel\<close>: form field without label.
  \<^item> \<open>NoMainLandmark\<close>, \<open>NoNavLandmark\<close>: no main element, no nav element.
  \<^item> \<open>ButtonNoText\<close>: button without descriptive text.
\<close>

datatype message =
    NoH1
  | is_MultipleH1: MultipleH1 nat
  | is_LevelSkip: LevelSkip jsnum jsnum
  | EmptyHeading
  | LowContrast jsnum real bool
  | LangMissing
  | MissingAlt
  | SvgNoDescription
  | LinkNoText
  | LinkNotDescriptive
  | FieldNoLabel
  | NoMainLandmark
  | NoNavLandmark
  | ButtonNoText

record Issue =
  element :: string
  issue :: message
  severity :: severity

record HeadingIssue = Issue +
  heading_text :: "string option"
  headingId :: "string option"

record ContrastIssue = Issue +
  ratio :: jsnum
  required :: real
  fgColor :: string
  bgColor :: string
  fontSizePx :: jsnum
  contrastId :: string

record 'i CategoryResult =
  total :: nat
  issues :: "'i list"
  passed :: int

subsection \<open>Contrast detector\<close>

definition LARGE_TEXT_MIN_SIZE :: real where "LARGE_TEXT_MIN_SIZE = 24"
definition LARGE_TEXT_MIN_SIZE_BOLD :: real where "LARGE_TEXT_MIN_SIZE_BOLD = 18.66"
definition BOLD_FONT_WEIGHT_THRESHOLD :: real where "BOLD_FONT_WEIGHT_THRESHOLD = 700"
definition CONTRAST_RATIO_NORMAL_TEXT :: real where "CONTRAST_RATIO_NORMAL_TEXT = 4.5"
definition CONTRAST_RATIO_LARGE_TEXT :: real where "CONTRAST_RATIO_LARGE_TEXT = 3"
definition TEXT_NODE_TYPE :: nat where "TEXT_NODE_TYPE = 3"
definition MAX_CONTRAST_ELEMENTS :: nat where "MAX_CONTRAST_ELEMENTS = 500"

definition isLargeText :: "jsnum \<Rightarrow> string \<Rightarrow> bool" where
  "isLargeText px weight =
     (let isBold = (weight = ''bold'' \<or>
                    js_ge (parseInt weight None) (Num BOLD_FONT_WEIGHT_THRESHOLD))
      in js_ge px (Num LARGE_TEXT_MIN_SIZE) \<or>
         (js_ge px (Num LARGE_TEXT_MIN_SIZE_BOLD) \<and> isBold))"

definition hasDirectTextContent :: "HTMLElement \<Rightarrow> bool" where
  "hasDirectTextContent el =
     list_ex (\<lambda>node. nodeType node = TEXT_NODE_TYPE \<and> trim (nodeText node) \<noteq> [])
       (childNodes el)"

text \<open>
  \<^verbatim>\<open>processContrastElement(el, issueIndex)\<close>: the issue of one element, or \<open>None\<close> for
  \<^verbatim>\<open>null\<close>. The source formats \<^verbatim>\<open>ratio\<close> and \<^verbatim>\<open>fontSize\<close> with \<^verbatim>\<open>toFixed\<close>; the
  issue keeps the numbers.
\<close>

definition contrast_issue ::
  "HTMLElement \<Rightarrow> nat \<Rightarrow> jsnum \<Rightarrow> real \<Rightarrow> bool \<Rightarrow> jsnum \<Rightarrow> ContrastIssue" where
  "contrast_issue el issueIndex rat minimumRatio largeText px =
     \<lparr>element = toLowerCase (tagName el) @ '' '' @ string_of_nat (issueIndex + 1),
      issue = LowContrast rat minimumRatio largeText,
      severity = Elevee,
      ratio = rat,
      required = minimumRatio,
      fgColor = color (computedStyle el),
      bgColor = backgroundColor (computedStyle el),
      fontSizePx = px,
      contrastId = ''accessibility-contrast-'' @ string_of_nat issueIndex\<rparr>"

definition processContrastElement :: "HTMLElement \<Rightarrow> nat \<Rightarrow> ContrastIssue option" where
  "processContrastElement el issueIndex =
     (let style = computedStyle el;
          fgc = color style;
          bgc = backgroundColor style
      in if bgc = [] \<or> bgc = ''transparent'' \<or> bgc = ''rgba(0, 0, 0, 0)'' then None
         else
           (let bg = parseColor bgc
            in if bg \<noteq> Null \<and> js_lt (prop_of a bg) (Num 1) then None
               else
                 (let rat = calculateContrastRatio fgc bgc;
                      px = parseFloat (fontSize style);
                      weight = fontWeight style;
                      largeText = isLargeText px weight;
                      minimumRatio = (if largeText then CONTRAST_RATIO_LARGE_TEXT
                                      else CONTRAST_RATIO_NORMAL_TEXT)
                  in if js_gt rat (Num 0) \<and> js_lt rat (Num minimumRatio)
                     then Some (contrast_issue el issueIndex rat minimumRatio largeText px)
                     else None)))"

definition contrast_tags :: "string list" where
  "contrast_tags =
     [''P'', ''H1'', ''H2'', ''H3'', ''H4'', ''H5'', ''H6'', ''A'', ''BUTTON'', ''SPAN'',
      ''LI'', ''TD'', ''TH'', ''LABEL'']"

definition interactive_tags :: "string list" where
  "interactive_tags = [''BUTTON'', ''A'', ''LABEL'']"

text \<open>The filter of \<^verbatim>\<open>checkContrast\<close>: hidden elements are ignored; an interactive
  element needs some visible text, any other element a text node of its own.\<close>

definition contrast_candidate :: "HTMLElement \<Rightarrow> bool" where
  "contrast_candidate el =
     (let style = computedStyle el
      in if display style = ''none'' \<or> visibility style = ''hidden'' \<or> opacity style = ''0''
         then False
         else if tagName el \<in> set interactive_tags then trim (textContent el) \<noteq> []
         else hasDirectTextContent el)"

text \<open>The \<^verbatim>\<open>forEach\<close> of \<^verbatim>\<open>checkContrast\<close>; \<open>acc\<close> is the array \<^verbatim>\<open>issues\<close>.\<close>

fun contrast_loop :: "HTMLElement list \<Rightarrow> ContrastIssue list \<Rightarrow> nat \<Rightarrow> ContrastIssue list" where
  "contrast_loop [] acc issueIndex = acc"
| "contrast_loop (el # els) acc issueIndex =
     (case processContrastElement el issueIndex of
        Some found \<Rightarrow> contrast_loop els (acc @ [found]) (issueIndex + 1)
      | None \<Rightarrow> contrast_loop els acc issueIndex)"

definition textElements :: "document \<Rightarrow> HTMLElement list" where
  "textElements doc =
     (let allElements = filter contrast_candidate (querySelectorAll doc contrast_tags);
          interactiveElements = filter (\<lambda>el. tagName el \<in> set interactive_tags) allElements;
          otherElements = filter (\<lambda>el. tagName el \<notin> set interactive_tags) allElements
      in take MAX_CONTRAST_ELEMENTS (interactiveElements @ otherElements))"

definition checkContrast :: "document \<Rightarrow> ContrastIssue CategoryResult" where
  "checkContrast doc =
     (let els = textElements doc;
          found = contrast_loop els [] 0
      in \<lparr>total = length els, issues = found,
          passed = int (length els) - int (length found)\<rparr>)"

subsection \<open>Heading detector\<close>

definition heading_tags :: "string list" where
  "heading_tags = [''H1'', ''H2'', ''H3'', ''H4'', ''H5'', ''H6'']"

text \<open>The variables the \<^verbatim>\<open>forEach\<close> of \<^verbatim>\<open>checkHeadings\<close> updates: the array
  \<^verbatim>\<open>issues\<close> (\<open>pushed\<close>), \<^verbatim>\<open>previousLevel\<close> and \<^verbatim>\<open>issueIndex\<close>.\<close>

record heading_state =
  pushed :: "HeadingIssue list"
  previousLevel :: jsnum
  issueIndex :: nat

definition heading_level :: "HTMLElement \<Rightarrow> jsnum" where
  "heading_level heading = parseInt (drop 1 (tagName heading)) None"

definition skip_issue :: "HTMLElement \<Rightarrow> heading_state \<Rightarrow> HeadingIssue" where
  "skip_issue heading st =
     \<lparr>element = tagName heading,
      issue = LevelSkip (previousLevel st) (heading_level heading),
      severity = Moyenne,
      heading_text = Some (trim (textContent heading)),
      headingId = Some (''accessibility-heading-'' @ string_of_nat (issueIndex st))\<rparr>"

definition empty_issue :: "HTMLElement \<Rightarrow> nat \<Rightarrow> heading_state \<Rightarrow> HeadingIssue" where
  "empty_issue heading index st =
     \<lparr>element = tagName heading @ '' '' @ string_of_nat (index + 1),
      issue = EmptyHeading,
      severity = Elevee,
      heading_text = None,
      headingId = Some (''accessibility-heading-'' @ string_of_nat (issueIndex st))\<rparr>"

text \<open>The test \<^verbatim>\<open>previousLevel > 0 && level - previousLevel > 1\<close>.\<close>

definition level_skipped :: "jsnum \<Rightarrow> jsnum \<Rightarrow> bool" where
  "level_skipped prev level \<longleftrightarrow> js_gt prev (Num 0) \<and> js_gt (js_sub level prev) (Num 1)"

text \<open>The body of the loop, for the heading at position \<open>index\<close>.\<close>

definition heading_step :: "HTMLElement \<Rightarrow> nat \<Rightarrow> heading_state \<Rightarrow> heading_state" where
  "heading_step heading index st =
     (let level = heading_level heading;
          st1 = (if level_skipped (previousLevel st) level
                 then st\<lparr>pushed := pushed st @ [skip_issue heading st],
                         issueIndex := issueIndex st + 1\<rparr>
                 else st);
          st2 = (if trim (textContent heading) = []
                 then st1\<lparr>pushed := pushed st1 @ [empty_issue heading index st1],
                          issueIndex := issueIndex st1 + 1\<rparr>
                 else st1)
      in st2\<lparr>previousLevel := level\<rparr>)"

fun headings_loop :: "HTMLElement list \<Rightarrow> nat \<Rightarrow> heading_state \<Rightarrow> heading_state" where
  "headings_loop [] index st = st"
| "headings_loop (heading # rest) index st =
     headings_loop rest (index + 1) (heading_step heading index st)"

definition structural_issues :: "nat \<Rightarrow> HeadingIssue list" where
  "structural_issues h1Count =
     (if h1Count = 0 then
        [\<lparr>element = ''Structure'', issue = NoH1, severity = Elevee,
          heading_text = None, headingId = None\<rparr>]
      else if 1 < h1Count then
        [\<lparr>element = ''Structure'', issue = MultipleH1 h1Count, severity = Moyenne,
          heading_text = None, headingId = None\<rparr>]
      else [])"

text \<open>The state before the loop: the page-level issues are already in the array.\<close>

definition initial_heading_state :: "nat \<Rightarrow> heading_state" where
  "initial_heading_state h1Count =
     \<lparr>pushed = structural_issues h1Count, previousLevel = Num 0, issueIndex = 0\<rparr>"

definition checkHeadings :: "document \<Rightarrow> HeadingIssue CategoryResult" where
  "checkHeadings doc =
     (let headings = querySelectorAll doc heading_tags;
          h1Count = length (querySelectorAll doc [''H1'']);
          st = headings_loop headings 0 (initial_heading_state h1Count)
      in \<lparr>total = length headings, issues = pushed st,
          passed = int (length headings) - int (length (pushed st))\<rparr>)"


subsection \<open>Language detector\<close>

datatype error = TypeError | SyntaxError | Unmodelled

text \<open>\<^verbatim>\<open>document.querySelector("html")\<close> is \<^verbatim>\<open>null\<close> in a document without an html
  element, and calling \<^verbatim>\<open>hasAttribute\<close> on \<^verbatim>\<open>null\<close> throws a \<^verbatim>\<open>TypeError\<close>.\<close>

definition lang_issue :: Issue where
  "lang_issue = \<lparr>element = ''HTML'', issue = LangMissing, severity = Elevee\<rparr>"

definition checkLanguage :: "document \<Rightarrow> error + Issue CategoryResult" where
  "checkLanguage doc =
     (case querySelector doc [''HTML''] of
        None \<Rightarrow> Inl TypeError
      | Some htmlElement \<Rightarrow>
          (let found = (if \<not> hasAttribute htmlElement ''lang'' then [lang_issue] else [])
           in Inr \<lparr>total = 1, issues = found, passed = 1 - int (length found)\<rparr>))"

subsection \<open>Elements for the examples\<close>

text \<open>The computed style of an element the page does not style: black text, transparent
  background, 16px, normal weight.\<close>

definition initial_style :: ComputedStyle where
  "initial_style =
     \<lparr>display = ''block'', visibility = ''visible'', opacity = ''1'',
      color = ''rgb(0, 0, 0)'', backgroundColor = ''rgba(0, 0, 0, 0)'',
      fontSize = ''16px'', fontWeight = ''400''\<rparr>"

text \<open>An element with the given tag, attributes and text, the text being one text node.\<close>

definition el :: "string \<Rightarrow> (string \<times> string) list \<Rightarrow> string \<Rightarrow> HTMLElement" where
  "el tag attrs txt =
     \<lparr>tagName = tag, attributes = attrs, textContent = txt,
      childNodes = (if txt = [] then [] else [ChildNode TEXT_NODE_TYPE txt]),
      computedStyle = initial_style\<rparr>"

text \<open>The same element with a text colour and a background colour.\<close>

definition coloured :: "string \<Rightarrow> string \<Rightarrow> HTMLElement \<Rightarrow> HTMLElement" where
  "coloured fgc bgc e =
     e\<lparr>computedStyle := (computedStyle e)\<lparr>color := fgc, backgroundColor := bgc\<rparr>\<rparr>"

section \<open>The audit on a page that it marks\<close>

text \<open>
  The first part treats a detector as a function of what it reads. This part models the
  page itself, so that the marks one audit leaves are there when the next one starts: a
  detector takes the page and returns, with its result, the page it leaves behind.

  \<^item> A page is a tree of element nodes and text nodes. An element carries an identity (a
    number that stands for the identity of the DOM object), its tag name as
    \<^verbatim>\<open>tagName\<close> gives it, its attributes in their order, its inline style, the computed
    style the contrast detector reads, and the \<^verbatim>\<open>position\<close> the style sheets of the
    page give it.
  \<^item> The inline style is the list of its declarations, in the order in which the
    properties were first set, and \<open>None\<close> for an element without a \<^verbatim>\<open>style\<close>
    attribute. Assigning the empty string to a property removes its declaration and keeps
    the attribute, which is empty once the last declaration has gone. Values are kept as
    written (a browser writes a colour back in its own notation), and the attribute is
    serialised after the other attributes, each declaration as \<^verbatim>\<open>name: value;\<close>.
  \<^item> The audit writes the properties outline, outline-offset, box-shadow, border,
    animation and position, and the background of a link badge. Of these only the position
    is read back, through the computed style of a parent: it is the inline position when
    there is one and the position of the style sheets otherwise. The other computed
    properties do not change.
  \<^item> The elements the audit creates are \<^verbatim>\<open>div\<close> badges and \<^verbatim>\<open>style\<close> elements. No
    detector selects them, so their computed style is never read; they get the initial one.
  \<^item> The text of a badge is abbreviated: the warning sign at its start is beyond Latin-1
    and left out, and so are the two levels in the badge of a level skip. The text of an
    injected style sheet is abbreviated to a keyword.
  \<^item> The properties \<^verbatim>\<open>src\<close> of an image and \<^verbatim>\<open>href\<close> of a link are reported as the
    text of the attribute; a browser resolves them against the address of the page.
  \<^item> The registry \<^verbatim>\<open>markedElements\<close> is written by the audit and read by the
    presentation layer only; it is left out, as is the constant \<^verbatim>\<open>disclaimer\<close> of the
    contrast result.
\<close>

subsection \<open>Nodes and pages\<close>

type_synonym node_id = nat

record elem =
  ident :: node_id
  tag :: string
  attrs :: "(string \<times> string) list"
  inline :: "(string \<times> string) list option"
  computed :: ComputedStyle
  cssPosition :: string

datatype node = TextNode string | ElementNode elem "node list"

text \<open>The document: its root node, if it has one, and the next unused identity.\<close>

record page =
  tree :: "node option"
  fresh :: node_id

text \<open>A step that can throw, followed by the rest of the function.\<close>

definition and_then :: "error + 'a \<Rightarrow> ('a \<Rightarrow> error + 'b) \<Rightarrow> error + 'b" where
  "and_then m f = (case m of Inl e \<Rightarrow> Inl e | Inr x \<Rightarrow> f x)"

text \<open>The elements of a subtree in tree order, each with its child nodes, and the text content
  of a node.\<close>

fun elements :: "node \<Rightarrow> (elem \<times> node list) list" where
  "elements (TextNode s) = []"
| "elements (ElementNode e ks) = (e, ks) # concat (map elements ks)"

fun text_of :: "node \<Rightarrow> string" where
  "text_of (TextNode s) = s"
| "text_of (ElementNode e ks) = concat (map text_of ks)"

text \<open>The tree with one element changed, with a node appended to the children of an element,
  and without an element and its subtree.\<close>

fun has_ident :: "node_id \<Rightarrow> node \<Rightarrow> bool" where
  "has_ident i (TextNode s) = False"
| "has_ident i (ElementNode e ks) = (ident e = i)"

fun update_elem :: "node_id \<Rightarrow> (elem \<Rightarrow> elem) \<Rightarrow> node \<Rightarrow> node" where
  "update_elem i f (TextNode s) = TextNode s"
| "update_elem i f (ElementNode e ks) =
     ElementNode (if ident e = i then f e else e) (map (update_elem i f) ks)"

fun append_child :: "node_id \<Rightarrow> node \<Rightarrow> node \<Rightarrow> node" where
  "append_child i new (TextNode s) = TextNode s"
| "append_child i new (ElementNode e ks) =
     ElementNode e (map (append_child i new) ks @ (if ident e = i then [new] else []))"

fun remove_elem :: "node_id \<Rightarrow> node \<Rightarrow> node" where
  "remove_elem i (TextNode s) = TextNode s"
| "remove_elem i (ElementNode e ks) =
     ElementNode e (map (remove_elem i) (filter (\<lambda>k. \<not> has_ident i k) ks))"

text \<open>The elements on the way from a node down to the element of identity \<open>i\<close>.\<close>

fun first_some :: "'a option list \<Rightarrow> 'a option" where
  "first_some [] = None"
| "first_some (None # xs) = first_some xs"
| "first_some (Some x # xs) = Some x"

fun path_to :: "node_id \<Rightarrow> node \<Rightarrow> (elem \<times> node list) list option" where
  "path_to i (TextNode s) = None"
| "path_to i (ElementNode e ks) =
     (if ident e = i then Some [(e, ks)]
      else (case first_some (map (path_to i) ks) of
              None \<Rightarrow> None
            | Some path \<Rightarrow> Some ((e, ks) # path)))"

text \<open>The text nodes below a node in document order, each with its parent element.\<close>

fun walk_text :: "elem \<Rightarrow> node \<Rightarrow> (elem \<times> string) list" where
  "walk_text par (TextNode s) = [(par, s)]"
| "walk_text par (ElementNode e ks) = concat (map (walk_text e) ks)"

text \<open>\<^verbatim>\<open>document.querySelectorAll\<close> with a selector \<open>sel\<close> is
  \<open>filter sel (all_elements p)\<close>, and \<^verbatim>\<open>querySelector\<close> on an element is a \<open>find\<close> in its
  \<open>descendants\<close>. \<open>lookup\<close> reads the element of an identity in the page as it is now;
  \<open>parentElement\<close> and \<open>closest\<close> are those of the DOM, \<open>None\<close> for \<^verbatim>\<open>null\<close>.\<close>

definition all_elements :: "page \<Rightarrow> (elem \<times> node list) list" where
  "all_elements p = (case tree p of None \<Rightarrow> [] | Some n \<Rightarrow> elements n)"

definition descendants :: "elem \<times> node list \<Rightarrow> (elem \<times> node list) list" where
  "descendants nd = concat (map elements (snd nd))"

definition lookup :: "page \<Rightarrow> node_id \<Rightarrow> (elem \<times> node list) option" where
  "lookup p i = find (\<lambda>nd. ident (fst nd) = i) (all_elements p)"

definition ancestors_or_self :: "page \<Rightarrow> node_id \<Rightarrow> (elem \<times> node list) list" where
  "ancestors_or_self p i =
     (case tree p of
        None \<Rightarrow> []
      | Some n \<Rightarrow> (case path_to i n of None \<Rightarrow> [] | Some path \<Rightarrow> rev path))"

definition parentElement :: "page \<Rightarrow> node_id \<Rightarrow> (elem \<times> node list) option" where
  "parentElement p i = (case ancestors_or_self p i of _ # par # _ \<Rightarrow> Some par | _ \<Rightarrow> None)"

definition closest :: "(elem \<times> node list \<Rightarrow> bool) \<Rightarrow> page \<Rightarrow> node_id \<Rightarrow> (elem \<times> node list) option" where
  "closest sel p i = find sel (ancestors_or_self p i)"

text \<open>Writing to an element, \<^verbatim>\<open>appendChild\<close> and \<^verbatim>\<open>remove\<close>.\<close>

definition modify :: "node_id \<Rightarrow> (elem \<Rightarrow> elem) \<Rightarrow> page \<Rightarrow> page" where
  "modify i f p = p\<lparr>tree := map_option (update_elem i f) (tree p)\<rparr>"

definition appendChild :: "node_id \<Rightarrow> node \<Rightarrow> page \<Rightarrow> page" where
  "appendChild i new p = p\<lparr>tree := map_option (append_child i new) (tree p)\<rparr>"

definition remove :: "node_id \<Rightarrow> page \<Rightarrow> page" where
  "remove i p =
     p\<lparr>tree := (case tree p of
                  None \<Rightarrow> None
                | Some n \<Rightarrow> if has_ident i n then None else Some (remove_elem i n))\<rparr>"

subsection \<open>Attributes, inline style, selectors\<close>

text \<open>\<^verbatim>\<open>setAttribute\<close> replaces the value of an attribute in place and appends a new
  attribute at the end.\<close>

definition getAttribute :: "elem \<Rightarrow> string \<Rightarrow> string option" where
  "getAttribute e name = map_of (attrs e) name"

definition setAttribute :: "string \<Rightarrow> string \<Rightarrow> elem \<Rightarrow> elem" where
  "setAttribute name v e =
     e\<lparr>attrs := (if map_of (attrs e) name = None then attrs e @ [(name, v)]
                 else map (\<lambda>kv. if fst kv = name then (name, v) else kv) (attrs e))\<rparr>"

definition removeAttribute :: "string \<Rightarrow> elem \<Rightarrow> elem" where
  "removeAttribute name e = e\<lparr>attrs := filter (\<lambda>kv. fst kv \<noteq> name) (attrs e)\<rparr>"

text \<open>The assignment \<^verbatim>\<open>e.style.property = v\<close>. The empty string removes the declaration;
  on an element without a style attribute it changes nothing.\<close>

definition set_style :: "string \<Rightarrow> string \<Rightarrow> elem \<Rightarrow> elem" where
  "set_style property v e =
     (case inline e of
        None \<Rightarrow> if v = [] then e else e\<lparr>inline := Some [(property, v)]\<rparr>
      | Some ds \<Rightarrow>
          if map_of ds property = None
          then (if v = [] then e else e\<lparr>inline := Some (ds @ [(property, v)])\<rparr>)
          else if v = [] then e\<lparr>inline := Some (filter (\<lambda>kv. fst kv \<noteq> property) ds)\<rparr>
          else e\<lparr>inline := Some (map (\<lambda>kv. if fst kv = property then (property, v) else kv) ds)\<rparr>)"

definition set_styles :: "(string \<times> string) list \<Rightarrow> elem \<Rightarrow> elem" where
  "set_styles kvs e = foldl (\<lambda>x kv. set_style (fst kv) (snd kv) x) e kvs"

text \<open>\<^verbatim>\<open>getComputedStyle(e).position\<close>.\<close>

definition position_of :: "elem \<Rightarrow> string" where
  "position_of e =
     (case inline e of
        None \<Rightarrow> cssPosition e
      | Some ds \<Rightarrow> (case map_of ds ''position'' of None \<Rightarrow> cssPosition e | Some v \<Rightarrow> v))"

text \<open>The local name of an element: an HTML element has its tag name in upper case and its
  local name in lower case; an element of another namespace (\<^verbatim>\<open>svg\<close>, \<^verbatim>\<open>title\<close> in an
  SVG) has the same tag name and local name, with lower-case letters. A type selector
  compares local names.\<close>

definition is_lower :: "char \<Rightarrow> bool" where
  "is_lower c \<longleftrightarrow> 97 \<le> (of_char c :: nat) \<and> (of_char c :: nat) \<le> 122"

definition localName :: "elem \<Rightarrow> string" where
  "localName e = (if list_ex is_lower (tag e) then tag e else toLowerCase (tag e))"

definition has_tag :: "string list \<Rightarrow> elem \<times> node list \<Rightarrow> bool" where
  "has_tag names nd \<longleftrightarrow> localName (fst nd) \<in> set names"

text \<open>The tokens of a \<^verbatim>\<open>class\<close> attribute. The selector \<^verbatim>\<open>.c\<close> and
  \<^verbatim>\<open>classList.contains\<close> ask for a token; the selector \<^verbatim>\<open>[class*="c"]\<close> asks for a
  substring of the attribute.\<close>

definition is_ascii_space :: "char \<Rightarrow> bool" where
  "is_ascii_space c \<longleftrightarrow> c \<in> {CHR 0x09, CHR 0x0A, CHR 0x0C, CHR 0x0D, CHR 0x20}"

fun tokens_from :: "string \<Rightarrow> string \<Rightarrow> string list" where
  "tokens_from cur [] = (if cur = [] then [] else [cur])"
| "tokens_from cur (c # cs) =
     (if is_ascii_space c then (if cur = [] then [] else [cur]) @ tokens_from [] cs
      else tokens_from (cur @ [c]) cs)"

definition classList :: "elem \<Rightarrow> string list" where
  "classList e = (case getAttribute e ''class'' of None \<Rightarrow> [] | Some v \<Rightarrow> tokens_from [] v)"

definition has_class :: "string \<Rightarrow> elem \<times> node list \<Rightarrow> bool" where
  "has_class c nd \<longleftrightarrow> c \<in> set (classList (fst nd))"

fun contains :: "string \<Rightarrow> string \<Rightarrow> bool" where
  "contains sub [] = (sub = [])"
| "contains sub (c # cs) = (take (length sub) (c # cs) = sub \<or> contains sub cs)"

definition class_contains :: "string \<Rightarrow> elem \<times> node list \<Rightarrow> bool" where
  "class_contains sub nd =
     (case getAttribute (fst nd) ''class'' of None \<Rightarrow> False | Some v \<Rightarrow> contains sub v)"

definition attr_is :: "string \<Rightarrow> string \<Rightarrow> elem \<times> node list \<Rightarrow> bool" where
  "attr_is name v nd \<longleftrightarrow> getAttribute (fst nd) name = Some v"

text \<open>\<^verbatim>\<open>textContent\<close>, \<^verbatim>\<open>document.getElementById\<close> and \<^verbatim>\<open>document.head\<close> (the
  first \<^verbatim>\<open>head\<close> child of the \<^verbatim>\<open>html\<close> root).\<close>

definition textContent_of :: "elem \<times> node list \<Rightarrow> string" where
  "textContent_of nd = concat (map text_of (snd nd))"

definition getElementById :: "page \<Rightarrow> string \<Rightarrow> (elem \<times> node list) option" where
  "getElementById p i = find (attr_is ''id'' i) (all_elements p)"

definition head_of :: "page \<Rightarrow> (elem \<times> node list) option" where
  "head_of p =
     (case tree p of
        Some (ElementNode e ks) \<Rightarrow>
          (if localName e = ''html''
           then find (has_tag [''head''])
                  (concat (map (\<lambda>k. case k of ElementNode e' ks' \<Rightarrow> [(e', ks')] | TextNode s \<Rightarrow> []) ks))
           else None)
      | _ \<Rightarrow> None)"

subsection \<open>Serialisation and snippets\<close>

text \<open>\<^verbatim>\<open>outerHTML\<close>: the HTML fragment serialisation of an element. Text is escaped, except
  inside \<^verbatim>\<open>style\<close>, \<^verbatim>\<open>script\<close> and the like; a void element has no end tag.\<close>

definition escape_text :: "string \<Rightarrow> string" where
  "escape_text s =
     concat (map (\<lambda>c. if c = CHR ''&'' then ''&amp;''
                        else if c = CHR ''<'' then ''&lt;''
                        else if c = CHR ''>'' then ''&gt;''
                        else if c = CHR 0xA0 then ''&nbsp;''
                        else [c]) s)"

definition escape_attr :: "string \<Rightarrow> string" where
  "escape_attr s =
     concat (map (\<lambda>c. if c = CHR ''&'' then ''&amp;''
                        else if c = CHR 0x22 then ''&quot;''
                        else if c = CHR 0xA0 then ''&nbsp;''
                        else [c]) s)"

definition void_tags :: "string list" where
  "void_tags =
     [''area'', ''base'', ''br'', ''col'', ''embed'', ''hr'', ''img'', ''input'', ''link'',
      ''meta'', ''param'', ''source'', ''track'', ''wbr'']"

definition raw_text_tags :: "string list" where
  "raw_text_tags =
     [''style'', ''script'', ''xmp'', ''iframe'', ''noembed'', ''noframes'', ''plaintext'']"

fun style_text :: "(string \<times> string) list \<Rightarrow> string" where
  "style_text [] = []"
| "style_text [kv] = fst kv @ '': '' @ snd kv @ '';''"
| "style_text (kv # rest) = fst kv @ '': '' @ snd kv @ ''; '' @ style_text rest"

definition attributes_text :: "elem \<Rightarrow> string" where
  "attributes_text e =
     concat (map (\<lambda>kv. '' '' @ fst kv @ ''='' @ [CHR 0x22] @ escape_attr (snd kv) @ [CHR 0x22])
               (attrs e))
     @ (case inline e of
          None \<Rightarrow> []
        | Some ds \<Rightarrow> '' style='' @ [CHR 0x22] @ escape_attr (style_text ds) @ [CHR 0x22])"

fun serialize :: "bool \<Rightarrow> node \<Rightarrow> string" where
  "serialize raw (TextNode s) = (if raw then s else escape_text s)"
| "serialize raw (ElementNode e ks) =
     ''<'' @ localName e @ attributes_text e @ ''>''
     @ (if localName e \<in> set void_tags then []
        else concat (map (serialize (localName e \<in> set raw_text_tags)) ks)
             @ ''</'' @ localName e @ ''>'')"

text \<open>The clone without the descendants that match \<^verbatim>\<open>[class*="accessibility-badge"]\<close>.\<close>

fun is_badge_node :: "node \<Rightarrow> bool" where
  "is_badge_node (TextNode s) = False"
| "is_badge_node (ElementNode e ks) = class_contains ''accessibility-badge'' (e, ks)"

fun strip_badges :: "node \<Rightarrow> node" where
  "strip_badges (TextNode s) = TextNode s"
| "strip_badges (ElementNode e ks) =
     ElementNode e (map strip_badges (filter (\<lambda>k. \<not> is_badge_node k) ks))"

text \<open>\<^verbatim>\<open>generateHTMLSnippet\<close>. The three attributes and the five style properties are
  removed from the clone of the element itself, not from the clones of its descendants.
  The guard on a missing element or an empty \<^verbatim>\<open>outerHTML\<close> never fires on an element of
  the page.\<close>

definition MAX_HTML_SNIPPET_LENGTH :: nat where
  "MAX_HTML_SNIPPET_LENGTH = 500"

definition generateHTMLSnippet :: "elem \<times> node list \<Rightarrow> string" where
  "generateHTMLSnippet nd =
     (let clone = (removeAttribute ''data-position-changed''
                    (removeAttribute ''data-accessibility-issue''
                      (removeAttribute ''data-accessibility-id'' (fst nd))));
          clone = set_styles [(''outline'', []), (''outline-offset'', []), (''box-shadow'', []),
                              (''border'', []), (''animation'', [])] clone;
          html = serialize False (strip_badges (ElementNode clone (snd nd)))
      in if MAX_HTML_SNIPPET_LENGTH < length html
         then take MAX_HTML_SNIPPET_LENGTH html @ ''...''
         else html)"

subsection \<open>Marking\<close>

text \<open>The identities of the elements a selector matches, in tree order: the static list a
  \<^verbatim>\<open>forEach\<close> runs over.\<close>

definition ids_of :: "(elem \<times> node list \<Rightarrow> bool) \<Rightarrow> page \<Rightarrow> node_id list" where
  "ids_of sel p = map (\<lambda>nd. ident (fst nd)) (filter sel (all_elements p))"

definition querySelector_in :: "(elem \<times> node list \<Rightarrow> bool) \<Rightarrow> elem \<times> node list \<Rightarrow> (elem \<times> node list) option" where
  "querySelector_in sel nd = find sel (descendants nd)"

text \<open>A new element with the given text, appended to a parent.\<close>

definition createElement :: "page \<Rightarrow> string \<Rightarrow> (string \<times> string) list \<Rightarrow> (string \<times> string) list option \<Rightarrow> string \<Rightarrow> node" where
  "createElement p t as ds txt =
     ElementNode \<lparr>ident = fresh p, tag = t, attrs = as, inline = ds, computed = initial_style,
                  cssPosition = ''static''\<rparr> [TextNode txt]"

definition append_new :: "node_id \<Rightarrow> string \<Rightarrow> (string \<times> string) list \<Rightarrow> (string \<times> string) list option \<Rightarrow> string \<Rightarrow> page \<Rightarrow> page" where
  "append_new parent t as ds txt p =
     (appendChild parent (createElement p t as ds txt) p)\<lparr>fresh := fresh p + 1\<rparr>"

text \<open>A parent with computed position \<^verbatim>\<open>static\<close> gets the inline position
  \<^verbatim>\<open>relative\<close> and the attribute \<^verbatim>\<open>data-position-changed\<close>; the restoring sets the inline
  position to the empty string and removes the attribute.\<close>

definition ensureParentIsPositioned :: "node_id \<Rightarrow> page \<Rightarrow> page" where
  "ensureParentIsPositioned parent p =
     (case lookup p parent of
        None \<Rightarrow> p
      | Some nd \<Rightarrow>
          if position_of (fst nd) = ''static''
          then modify parent (\<lambda>e. setAttribute ''data-position-changed'' ''true''
                                   (set_style ''position'' ''relative'' e)) p
          else p)"

definition restore_parent_position :: "node_id \<Rightarrow> page \<Rightarrow> page" where
  "restore_parent_position parent p =
     (case lookup p parent of
        None \<Rightarrow> p
      | Some nd \<Rightarrow>
          if getAttribute (fst nd) ''data-position-changed'' = Some ''true''
          then modify parent (\<lambda>e. removeAttribute ''data-position-changed''
                                   (set_style ''position'' [] e)) p
          else p)"

text \<open>A badge: a \<^verbatim>\<open>div\<close> with a class, a text and \<^verbatim>\<open>data-badge-for\<close>, appended to the
  positioned parent. A style sheet is appended to \<^verbatim>\<open>document.head\<close> unless an element
  with its \<^verbatim>\<open>id\<close> exists; without a head the access throws.\<close>

definition add_badge :: "node_id \<Rightarrow> string \<Rightarrow> string \<Rightarrow> string \<Rightarrow> (string \<times> string) list option \<Rightarrow> page \<Rightarrow> page" where
  "add_badge parent cls txt badgeFor ds p =
     append_new parent ''DIV'' [(''class'', cls), (''data-badge-for'', badgeFor)] ds txt
       (ensureParentIsPositioned parent p)"

definition inject_style :: "string \<Rightarrow> string \<Rightarrow> page \<Rightarrow> error + page" where
  "inject_style i css p =
     (if getElementById p i = None
      then (case head_of p of
              None \<Rightarrow> Inl TypeError
            | Some h \<Rightarrow> Inr (append_new (ident (fst h)) ''STYLE'' [(''id'', i)] None css p))
      else Inr p)"

text \<open>The first element below the parent that matches, removed if there is one.\<close>

definition remove_badge_in :: "(elem \<times> node list \<Rightarrow> bool) \<Rightarrow> node_id \<Rightarrow> page \<Rightarrow> page" where
  "remove_badge_in sel parent p =
     (case lookup p parent of
        None \<Rightarrow> p
      | Some nd \<Rightarrow>
          (case querySelector_in sel nd of
             None \<Rightarrow> p
           | Some badge \<Rightarrow> remove (ident (fst badge)) p))"

subsection \<open>Issues with a snippet\<close>

text \<open>An issue of the image, SVG, link, form and button detectors: the fields of every
  issue, the fields proper to the detector as pairs of a name and a value, and the
  snippet.\<close>

record ReportIssue = Issue +
  details :: "(string \<times> string) list"
  htmlSnippet :: string

text \<open>A reflected string property (\<^verbatim>\<open>alt\<close>, \<^verbatim>\<open>id\<close>) is the attribute, or empty
  without it; \<open>truthy\<close> is the truth value of an attribute value that may be \<^verbatim>\<open>null\<close>.\<close>

definition attribute_or_empty :: "elem \<Rightarrow> string \<Rightarrow> string" where
  "attribute_or_empty e name = (case getAttribute e name of None \<Rightarrow> [] | Some v \<Rightarrow> v)"

definition truthy :: "string option \<Rightarrow> bool" where
  "truthy v = (case v of None \<Rightarrow> False | Some s \<Rightarrow> s \<noteq> [])"

subsection \<open>Images\<close>

definition image_styles :: "(string \<times> string) list" where
  "image_styles =
     [(''border'', ''5px solid #ef4444''), (''outline'', ''5px solid #cc0808''),
      (''outline-offset'', ''3px''), (''box-shadow'', ''0 0 20px rgba(239, 68, 68, 0.6)''),
      (''animation'', ''pulse-red 2s infinite'')]"

definition cleared :: "string list \<Rightarrow> (string \<times> string) list" where
  "cleared properties = map (\<lambda>k. (k, [])) properties"

text \<open>The body of the loop of \<^verbatim>\<open>checkImages\<close> for one image.\<close>

definition image_turn :: "node_id \<Rightarrow> nat \<Rightarrow> page \<Rightarrow> error + (page \<times> ReportIssue list)" where
  "image_turn img index p =
     (case lookup p img of
        None \<Rightarrow> Inl Unmodelled
      | Some nd \<Rightarrow>
          if trim (attribute_or_empty (fst nd) ''alt'') = [] then
            (let imageId = ''accessibility-img-'' @ string_of_nat index;
                 p1 = modify img
                        (\<lambda>e. setAttribute ''data-accessibility-issue'' ''missing-alt''
                                (set_styles image_styles
                                  (setAttribute ''data-accessibility-id'' imageId e))) p
             in case parentElement p1 img of
                  None \<Rightarrow> Inl TypeError
                | Some par \<Rightarrow>
                    (let p2 = (if querySelector_in (has_class ''accessibility-badge'') par = None
                               then add_badge (ident (fst par)) ''accessibility-badge''
                                      ''ALT MANQUANT'' imageId None p1
                               else p1)
                     in and_then (inject_style ''accessibility-animation-styles'' ''pulse-red'' p2)
                          (\<lambda>p3. case lookup p3 img of
                                   None \<Rightarrow> Inl Unmodelled
                                 | Some nd3 \<Rightarrow>
                                     Inr (p3,
                                       [\<lparr>element = ''Image '' @ string_of_nat (index + 1),
                                         issue = MissingAlt, severity = Elevee,
                                         details = [(''src'', attribute_or_empty (fst nd) ''src''),
                                                    (''imageId'', imageId)],
                                         htmlSnippet = generateHTMLSnippet nd3\<rparr>]))))
          else if getAttribute (fst nd) ''data-accessibility-issue'' = Some ''missing-alt'' then
            (let p1 = modify img
                        (\<lambda>e. removeAttribute ''data-accessibility-id''
                                (removeAttribute ''data-accessibility-issue''
                                  (set_styles (cleared [''border'', ''outline'', ''outline-offset'',
                                                        ''box-shadow'', ''animation'']) e))) p
             in case parentElement p1 img of
                  None \<Rightarrow> Inl TypeError
                | Some par \<Rightarrow>
                    Inr (restore_parent_position (ident (fst par))
                           (remove_badge_in (has_class ''accessibility-badge'') (ident (fst par)) p1),
                         []))
          else Inr (p, []))"

text \<open>A \<^verbatim>\<open>forEach\<close> over a node list with the index of each element: \<open>turn\<close> is the
  body, the issues it pushes are appended to \<open>acc\<close>.\<close>

fun for_each :: "(node_id \<Rightarrow> nat \<Rightarrow> page \<Rightarrow> error + (page \<times> 'i list)) \<Rightarrow> node_id list \<Rightarrow> nat \<Rightarrow> page \<Rightarrow> 'i list \<Rightarrow> error + (page \<times> 'i list)" where
  "for_each turn [] index p acc = Inr (p, acc)"
| "for_each turn (x # xs) index p acc =
     (case turn x index p of
        Inl e \<Rightarrow> Inl e
      | Inr (p', found) \<Rightarrow> for_each turn xs (index + 1) p' (acc @ found))"

definition category :: "nat \<Rightarrow> 'i list \<Rightarrow> 'i CategoryResult" where
  "category n found = \<lparr>total = n, issues = found, passed = int n - int (length found)\<rparr>"

text \<open>A category result from the number of elements looked at and the issues found.\<close>

definition checkImages :: "page \<Rightarrow> error + (page \<times> ReportIssue CategoryResult)" where
  "checkImages p =
     (let images = ids_of (has_tag [''img'']) p
      in and_then (for_each image_turn images 0 p [])
           (\<lambda>(p', found). Inr (p', category (length images) found)))"

subsection \<open>Inline SVG\<close>

definition isSVGAccessible :: "elem \<times> node list \<Rightarrow> bool" where
  "isSVGAccessible svg =
     (let hasRole = (getAttribute (fst svg) ''role'' = Some ''img'');
          hasAriaLabel = (case getAttribute (fst svg) ''aria-label'' of
                            None \<Rightarrow> False | Some v \<Rightarrow> trim v \<noteq> []);
          hasTitle = (querySelector_in (has_tag [''title'']) svg \<noteq> None);
          isHidden = (getAttribute (fst svg) ''aria-hidden'' = Some ''true'')
      in hasRole \<or> hasAriaLabel \<or> hasTitle \<or> isHidden)"

definition badge_for :: "string \<Rightarrow> string \<Rightarrow> elem \<times> node list \<Rightarrow> bool" where
  "badge_for cls i nd \<longleftrightarrow> has_class cls nd \<and> attr_is ''data-badge-for'' i nd"

definition createSVGBadge :: "node_id \<Rightarrow> string \<Rightarrow> page \<Rightarrow> error + page" where
  "createSVGBadge svg svgId p =
     (case parentElement p svg of
        None \<Rightarrow> Inl TypeError
      | Some par \<Rightarrow>
          if querySelector_in (badge_for ''accessibility-badge-svg'' svgId) par \<noteq> None
          then Inr p
          else Inr (add_badge (ident (fst par)) ''accessibility-badge-svg''
                      ''SVG NON ACCESSIBLE'' svgId None p))"

definition addVisualFeedbackToSVG :: "node_id \<Rightarrow> nat \<Rightarrow> page \<Rightarrow> error + (page \<times> string)" where
  "addVisualFeedbackToSVG svg index p =
     (let svgId = ''accessibility-svg-'' @ string_of_nat index;
          p1 = modify svg
                 (\<lambda>e. setAttribute ''data-accessibility-issue'' ''svg-no-desc''
                         (set_styles [(''outline'', ''5px solid #a855f7''), (''outline-offset'', ''3px''),
                                      (''box-shadow'', ''0 0 20px rgba(168, 85, 247, 0.6)'')]
                           (setAttribute ''data-accessibility-id'' svgId e))) p
      in and_then (createSVGBadge svg svgId p1) (\<lambda>p2. Inr (p2, svgId)))"

definition removeVisualFeedbackFromSVG :: "node_id \<Rightarrow> page \<Rightarrow> error + page" where
  "removeVisualFeedbackFromSVG svg p =
     (case lookup p svg of
        None \<Rightarrow> Inl Unmodelled
      | Some nd \<Rightarrow>
          if getAttribute (fst nd) ''data-accessibility-issue'' \<noteq> Some ''svg-no-desc'' then Inr p
          else
            (let p1 = modify svg
                        (\<lambda>e. removeAttribute ''data-accessibility-id''
                                (removeAttribute ''data-accessibility-issue''
                                  (set_styles (cleared [''outline'', ''outline-offset'', ''box-shadow'']) e))) p
             in case parentElement p1 svg of
                  None \<Rightarrow> Inl TypeError
                | Some par \<Rightarrow>
                    Inr (restore_parent_position (ident (fst par))
                           (remove_badge_in (has_class ''accessibility-badge-svg'')
                              (ident (fst par)) p1))))"

definition svg_turn :: "node_id \<Rightarrow> nat \<Rightarrow> page \<Rightarrow> error + (page \<times> ReportIssue list)" where
  "svg_turn svg index p =
     (case lookup p svg of
        None \<Rightarrow> Inl Unmodelled
      | Some nd \<Rightarrow>
          if \<not> isSVGAccessible nd then
            and_then (addVisualFeedbackToSVG svg index p)
              (\<lambda>(p1, svgId). case lookup p1 svg of
                   None \<Rightarrow> Inl Unmodelled
                 | Some nd1 \<Rightarrow>
                     Inr (p1, [\<lparr>element = ''SVG '' @ string_of_nat (index + 1),
                                issue = SvgNoDescription, severity = Elevee,
                                details = [(''svgId'', svgId)],
                                htmlSnippet = generateHTMLSnippet nd1\<rparr>]))
          else and_then (removeVisualFeedbackFromSVG svg p) (\<lambda>p1. Inr (p1, [])))"

definition checkSVG :: "page \<Rightarrow> error + (page \<times> ReportIssue CategoryResult)" where
  "checkSVG p =
     (let svgs = ids_of (has_tag [''svg'']) p
      in and_then (for_each svg_turn svgs 0 p [])
           (\<lambda>(p', found). Inr (p', category (length svgs) found)))"

subsection \<open>Links\<close>

text \<open>The tree walk of \<^verbatim>\<open>extractLinkText\<close>: the text nodes below the link in document
  order, without those whose parent element is rejected by the filter.\<close>

definition rejected_text_parent :: "page \<Rightarrow> elem \<Rightarrow> bool" where
  "rejected_text_parent p par \<longleftrightarrow>
     tag par = ''SVG'' \<or> tag par = ''IMG''
     \<or> closest (has_tag [''svg'']) p (ident par) \<noteq> None
     \<or> closest (has_tag [''img'']) p (ident par) \<noteq> None
     \<or> ''accessibility-badge'' \<in> set (classList par)
     \<or> ''accessibility-badge-link'' \<in> set (classList par)
     \<or> ''accessibility-badge-svg'' \<in> set (classList par)"

definition extractLinkText :: "page \<Rightarrow> elem \<times> node list \<Rightarrow> string" where
  "extractLinkText p link =
     trim (concat (map snd (filter (\<lambda>pt. \<not> rejected_text_parent p (fst pt))
                              (concat (map (walk_text (fst link)) (snd link))))))"

definition checkLinkHasAccessibleSVG :: "elem \<times> node list \<Rightarrow> bool" where
  "checkLinkHasAccessibleSVG link =
     (case querySelector_in (has_tag [''svg'']) link of
        None \<Rightarrow> False
      | Some svgInLink \<Rightarrow>
          (let hasRole = (getAttribute (fst svgInLink) ''role'' = Some ''img'');
               hasSvgAriaLabel = (case getAttribute (fst svgInLink) ''aria-label'' of
                                    None \<Rightarrow> False | Some v \<Rightarrow> trim v \<noteq> []);
               hasTitle = (querySelector_in (has_tag [''title'']) svgInLink \<noteq> None)
           in hasRole \<or> hasSvgAriaLabel \<or> hasTitle))"

definition image_with_alt :: "elem \<times> node list \<Rightarrow> bool" where
  "image_with_alt nd \<longleftrightarrow>
     has_tag [''img''] nd \<and> truthy (getAttribute (fst nd) ''alt'')"

definition checkLinkHasAccessibleDescription :: "page \<Rightarrow> elem \<times> node list \<Rightarrow> bool" where
  "checkLinkHasAccessibleDescription p link =
     (let ariaLabel = getAttribute (fst link) ''aria-label'';
          hasImageWithAlt = (querySelector_in image_with_alt link \<noteq> None);
          hasSVGAccessible = checkLinkHasAccessibleSVG link;
          txt = extractLinkText p link
      in txt \<noteq> [] \<or> truthy ariaLabel \<or> hasImageWithAlt \<or> hasSVGAccessible)"

definition isNonDescriptiveText :: "string \<Rightarrow> bool" where
  "isNonDescriptiveText txt \<longleftrightarrow>
     toLowerCase txt \<in> set [''cliquez ici'', ''en savoir plus'', ''voir'', ''lire la suite'']"

definition createLinkIssue :: "elem \<times> node list \<Rightarrow> nat \<Rightarrow> message \<Rightarrow> severity \<Rightarrow> (string \<times> string) list \<Rightarrow> ReportIssue" where
  "createLinkIssue link index msg sev extra =
     \<lparr>element = ''Lien '' @ string_of_nat (index + 1), issue = msg, severity = sev,
      details = (''linkId'', ''accessibility-link-'' @ string_of_nat index) # extra,
      htmlSnippet = generateHTMLSnippet link\<rparr>"

definition analyzeLinkAccessibility :: "page \<Rightarrow> elem \<times> node list \<Rightarrow> nat \<Rightarrow> ReportIssue option" where
  "analyzeLinkAccessibility p link index =
     (let ariaLabel = getAttribute (fst link) ''aria-label'';
          hasAccessibleDescription = checkLinkHasAccessibleDescription p link;
          txt = extractLinkText p link
      in if \<not> hasAccessibleDescription
         then Some (createLinkIssue link index LinkNoText Elevee
                      [(''href'', attribute_or_empty (fst link) ''href'')])
         else if isNonDescriptiveText txt \<and> \<not> truthy ariaLabel
         then Some (createLinkIssue link index LinkNotDescriptive Moyenne [(''text'', txt)])
         else None)"

definition addBadgeToLinkParent :: "node_id \<Rightarrow> string \<Rightarrow> string \<Rightarrow> string \<Rightarrow> page \<Rightarrow> error + page" where
  "addBadgeToLinkParent link linkId badgeText badgeColor p =
     (case parentElement p link of
        None \<Rightarrow> Inl TypeError
      | Some par \<Rightarrow>
          if querySelector_in (badge_for ''accessibility-badge-link'' linkId) par \<noteq> None
          then Inr p
          else Inr (add_badge (ident (fst par)) ''accessibility-badge-link'' badgeText linkId
                      (Some [(''background'', badgeColor)]) p))"

definition addVisualFeedbackToLink :: "node_id \<Rightarrow> ReportIssue \<Rightarrow> nat \<Rightarrow> page \<Rightarrow> error + page" where
  "addVisualFeedbackToLink link linkIssue index p =
     (let linkId = ''accessibility-link-'' @ string_of_nat index;
          isHighSeverity = (severity linkIssue = Elevee);
          outlineColor = (if isHighSeverity then ''#f97316'' else ''#fbbf24'');
          badgeText = (if isHighSeverity then ''LIEN VIDE'' else ''ARIA-LABEL ?'');
          badgeColor = (if isHighSeverity then ''#f97316'' else ''#f59e0b'');
          issueType = (if isHighSeverity then ''missing-text'' else ''bad-text'');
          p1 = modify link
                 (\<lambda>e. setAttribute ''data-accessibility-issue'' issueType
                         (set_styles [(''outline'', ''3px solid '' @ outlineColor),
                                      (''outline-offset'', ''2px'')]
                           (setAttribute ''data-accessibility-id'' linkId e))) p
      in addBadgeToLinkParent link linkId badgeText badgeColor p1)"

definition removeVisualFeedbackFromLink :: "node_id \<Rightarrow> page \<Rightarrow> error + page" where
  "removeVisualFeedbackFromLink link p =
     (case lookup p link of
        None \<Rightarrow> Inl Unmodelled
      | Some nd \<Rightarrow>
          if \<not> truthy (getAttribute (fst nd) ''data-accessibility-issue'') then Inr p
          else
            (let linkId = getAttribute (fst nd) ''data-accessibility-id'';
                 p1 = modify link
                        (\<lambda>e. removeAttribute ''data-accessibility-id''
                                (removeAttribute ''data-accessibility-issue''
                                  (set_styles (cleared [''outline'', ''outline-offset'']) e))) p
             in case parentElement p1 link of
                  None \<Rightarrow> Inl TypeError
                | Some par \<Rightarrow>
                    (let p2 = (case linkId of
                                 None \<Rightarrow> p1
                               | Some i \<Rightarrow>
                                   if i = [] then p1
                                   else remove_badge_in (badge_for ''accessibility-badge-link'' i)
                                          (ident (fst par)) p1)
                     in Inr (restore_parent_position (ident (fst par)) p2))))"

definition link_turn :: "node_id \<Rightarrow> nat \<Rightarrow> page \<Rightarrow> error + (page \<times> ReportIssue list)" where
  "link_turn link index p =
     (case lookup p link of
        None \<Rightarrow> Inl Unmodelled
      | Some nd \<Rightarrow>
          (case analyzeLinkAccessibility p nd index of
             Some linkIssue \<Rightarrow>
               and_then (addVisualFeedbackToLink link linkIssue index p)
                 (\<lambda>p1. Inr (p1, [linkIssue]))
           | None \<Rightarrow> and_then (removeVisualFeedbackFromLink link p) (\<lambda>p1. Inr (p1, []))))"

definition checkLinks :: "page \<Rightarrow> error + (page \<times> ReportIssue CategoryResult)" where
  "checkLinks p =
     (let links = ids_of (has_tag [''a'']) p
      in and_then (for_each link_turn links 0 p [])
           (\<lambda>(p', found). Inr (p', category (length links) found)))"

subsection \<open>What a detector of the first part reads of an element\<close>

fun child_view :: "node \<Rightarrow> childNode" where
  "child_view (TextNode s) = ChildNode TEXT_NODE_TYPE s"
| "child_view (ElementNode e ks) = ChildNode 1 []"

definition view :: "elem \<times> node list \<Rightarrow> HTMLElement" where
  "view nd =
     \<lparr>tagName = tag (fst nd), attributes = attrs (fst nd), textContent = textContent_of nd,
      childNodes = map child_view (snd nd), computedStyle = computed (fst nd)\<rparr>"

definition snapshot :: "page \<Rightarrow> document" where
  "snapshot p = map view (all_elements p)"

subsection \<open>Headings, with the marking\<close>

text \<open>What the heading, form and button detectors do to an element they flag: the
  identifier, the outline, the kind of issue, and a badge in the parent unless the parent
  already holds the badge of that identifier.\<close>

definition mark_and_badge :: "string \<Rightarrow> string \<Rightarrow> string \<Rightarrow> string \<Rightarrow> node_id \<Rightarrow> string \<Rightarrow> page \<Rightarrow> error + page" where
  "mark_and_badge outline issueType cls badgeText target targetId p =
     (let p1 = modify target
                 (\<lambda>e. setAttribute ''data-accessibility-issue'' issueType
                         (set_styles [(''outline'', outline), (''outline-offset'', ''2px'')]
                           (setAttribute ''data-accessibility-id'' targetId e))) p
      in case parentElement p1 target of
           None \<Rightarrow> Inl TypeError
         | Some par \<Rightarrow>
             if querySelector_in (badge_for cls targetId) par = None
             then Inr (add_badge (ident (fst par)) cls badgeText targetId None p1)
             else Inr p1)"

definition mark_heading :: "node_id \<Rightarrow> string \<Rightarrow> string \<Rightarrow> string \<Rightarrow> page \<Rightarrow> error + page" where
  "mark_heading heading hid issueType badgeText p =
     mark_and_badge ''4px solid #3b82f6'' issueType ''accessibility-badge-heading'' badgeText
       heading hid p"

record marking_state =
  current :: page
  reported :: "(HeadingIssue \<times> string option) list"
  loop_state :: heading_state

definition element_at :: "page \<Rightarrow> node_id \<Rightarrow> error + (elem \<times> node list)" where
  "element_at p i = (case lookup p i of None \<Rightarrow> Inl Unmodelled | Some nd \<Rightarrow> Inr nd)"

definition heading_turn :: "node_id \<Rightarrow> nat \<Rightarrow> marking_state \<Rightarrow> error + marking_state" where
  "heading_turn heading index ms =
     and_then (element_at (current ms) heading)
       (\<lambda>nd.
          let st = loop_state ms;
              level = heading_level (view nd)
          in and_then
               (if level_skipped (previousLevel st) level
                then and_then
                       (mark_heading heading
                          (''accessibility-heading-'' @ string_of_nat (issueIndex st))
                          ''heading-skip'' ''SAUT'' (current ms))
                       (\<lambda>p1. and_then (element_at p1 heading)
                          (\<lambda>nd1. Inr (ms\<lparr>current := p1,
                                          reported := reported ms
                                            @ [(skip_issue (view nd1) st, Some (generateHTMLSnippet nd1))],
                                          loop_state := st\<lparr>issueIndex := issueIndex st + 1\<rparr>\<rparr>)))
                else Inr ms)
               (\<lambda>ms1.
                  and_then (element_at (current ms1) heading)
                    (\<lambda>nd1.
                       and_then
                         (if trim (textContent_of nd1) = []
                          then and_then
                                 (mark_heading heading
                                    (''accessibility-heading-''
                                       @ string_of_nat (issueIndex (loop_state ms1)))
                                    ''heading-empty'' ''TITRE VIDE'' (current ms1))
                                 (\<lambda>p2. and_then (element_at p2 heading)
                                    (\<lambda>nd2. Inr (ms1\<lparr>current := p2,
                                                     reported := reported ms1
                                                       @ [(empty_issue (view nd2) index (loop_state ms1),
                                                           Some (generateHTMLSnippet nd2))],
                                                     loop_state := (loop_state ms1)
                                                       \<lparr>issueIndex := issueIndex (loop_state ms1) + 1\<rparr>\<rparr>)))
                          else Inr ms1)
                         (\<lambda>ms2. Inr (ms2\<lparr>loop_state := (loop_state ms2)\<lparr>previousLevel := level\<rparr>\<rparr>)))))"

fun headings_marking_loop :: "node_id list \<Rightarrow> nat \<Rightarrow> marking_state \<Rightarrow> error + marking_state" where
  "headings_marking_loop [] index ms = Inr ms"
| "headings_marking_loop (h # rest) index ms =
     (case heading_turn h index ms of
        Inl e \<Rightarrow> Inl e
      | Inr ms' \<Rightarrow> headings_marking_loop rest (index + 1) ms')"

definition checkHeadings_marking :: "page \<Rightarrow> error + (page \<times> (HeadingIssue \<times> string option) CategoryResult)" where
  "checkHeadings_marking p =
     (let headings = ids_of (has_tag [''h1'', ''h2'', ''h3'', ''h4'', ''h5'', ''h6'']) p
      in and_then (inject_style ''accessibility-heading-styles'' ''accessibility-badge-heading'' p)
           (\<lambda>p1.
              let h1Count = length (ids_of (has_tag [''h1'']) p1);
                  st0 = initial_heading_state h1Count
              in and_then
                   (headings_marking_loop headings 0
                      \<lparr>current = p1, reported = map (\<lambda>i. (i, None)) (pushed st0),
                       loop_state = st0\<rparr>)
                   (\<lambda>ms. Inr (current ms, category (length headings) (reported ms)))))"

subsection \<open>Form fields\<close>

definition input_type :: "elem \<Rightarrow> string" where
  "input_type e =
     (if localName e = ''textarea'' then ''textarea''
      else if localName e = ''select''
      then (if getAttribute e ''multiple'' = None then ''select-one'' else ''select-multiple'')
      else (let t = toLowerCase (attribute_or_empty e ''type'')
            in if t \<in> set [''hidden'', ''text'', ''search'', ''tel'', ''url'', ''email'', ''password'',
                             ''date'', ''month'', ''week'', ''time'', ''datetime-local'', ''number'',
                             ''range'', ''color'', ''checkbox'', ''radio'', ''file'', ''submit'',
                             ''image'', ''reset'', ''button'']
               then t else ''text''))"

definition form_field :: "elem \<times> node list \<Rightarrow> bool" where
  "form_field nd \<longleftrightarrow>
     (has_tag [''input''] nd
        \<and> toLowerCase (attribute_or_empty (fst nd) ''type'') \<notin> set [''hidden'', ''submit'', ''button''])
     \<or> has_tag [''textarea'', ''select''] nd"

text \<open>The identifier is pasted between double quotes into a selector. A double quote or a
  line break in it makes the selector invalid; an escape starting with a backslash is not
  followed here.\<close>

definition label_for :: "page \<Rightarrow> string \<Rightarrow> error + (elem \<times> node list) option" where
  "label_for p i =
     (if list_ex (\<lambda>c. c \<in> {CHR 0x22, CHR 0x0A, CHR 0x0C, CHR 0x0D}) i then Inl SyntaxError
      else if CHR 0x5C \<in> set i then Inl Unmodelled
      else Inr (find (\<lambda>nd. has_tag [''label''] nd \<and> attr_is ''for'' i nd) (all_elements p)))"

definition field_turn :: "node_id \<Rightarrow> nat \<Rightarrow> page \<times> nat \<Rightarrow> error + ((page \<times> nat) \<times> ReportIssue list)" where
  "field_turn input index sc =
     and_then (element_at (fst sc) input)
       (\<lambda>nd.
          let i = attribute_or_empty (fst nd) ''id''
          in and_then
               (if i \<noteq> [] then label_for (fst sc) i
                else Inr (closest (has_tag [''label'']) (fst sc) input))
               (\<lambda>label.
                  let ariaLabel = getAttribute (fst nd) ''aria-label'';
                      ariaLabelledby = getAttribute (fst nd) ''aria-labelledby''
                  in if label = None \<and> \<not> truthy ariaLabel \<and> \<not> truthy ariaLabelledby
                     then
                       (let formId = ''accessibility-form-'' @ string_of_nat (snd sc)
                        in and_then
                             (mark_and_badge ''3px solid #f59e0b'' ''form-no-label''
                                ''accessibility-badge-form'' ''LABEL MANQUANT'' input formId (fst sc))
                             (\<lambda>p1. and_then (element_at p1 input)
                                (\<lambda>nd1. Inr ((p1, snd sc + 1),
                                   [\<lparr>element = tag (fst nd1) @ '' '' @ string_of_nat (index + 1),
                                     issue = FieldNoLabel, severity = Elevee,
                                     details = [(''type'', input_type (fst nd1)), (''formId'', formId)],
                                     htmlSnippet = generateHTMLSnippet nd1\<rparr>]))))
                     else Inr (sc, [])))"

text \<open>A \<^verbatim>\<open>forEach\<close> whose body also counts the issues (\<^verbatim>\<open>issueIndex\<close>).\<close>

fun for_each_counting :: "(node_id \<Rightarrow> nat \<Rightarrow> page \<times> nat \<Rightarrow> error + ((page \<times> nat) \<times> 'i list)) \<Rightarrow> node_id list \<Rightarrow> nat \<Rightarrow> page \<times> nat \<Rightarrow> 'i list \<Rightarrow> error + (page \<times> 'i list)" where
  "for_each_counting turn [] index sc acc = Inr (fst sc, acc)"
| "for_each_counting turn (x # xs) index sc acc =
     (case turn x index sc of
        Inl e \<Rightarrow> Inl e
      | Inr (sc2, found) \<Rightarrow> for_each_counting turn xs (index + 1) sc2 (acc @ found))"

definition checkForms :: "page \<Rightarrow> error + (page \<times> ReportIssue CategoryResult)" where
  "checkForms p =
     (let inputs = ids_of form_field p
      in and_then (inject_style ''accessibility-form-styles'' ''accessibility-badge-form'' p)
           (\<lambda>p1. and_then (for_each_counting field_turn inputs 0 (p1, 0) [])
              (\<lambda>(p2, found). Inr (p2, category (length inputs) found))))"

subsection \<open>Buttons\<close>

definition button_turn :: "node_id \<Rightarrow> nat \<Rightarrow> page \<times> nat \<Rightarrow> error + ((page \<times> nat) \<times> ReportIssue list)" where
  "button_turn button index sc =
     and_then (element_at (fst sc) button)
       (\<lambda>nd.
          let txt = trim (textContent_of nd);
              ariaLabel = getAttribute (fst nd) ''aria-label''
          in if txt = [] \<and> \<not> truthy ariaLabel
             then
               (let buttonId = ''accessibility-button-'' @ string_of_nat (snd sc)
                in and_then
                     (mark_and_badge ''4px solid #10b981'' ''button-no-text''
                        ''accessibility-badge-button'' ''TEXTE MANQUANT'' button buttonId (fst sc))
                     (\<lambda>p1. and_then (element_at p1 button)
                        (\<lambda>nd1. Inr ((p1, snd sc + 1),
                           [\<lparr>element = ''Bouton '' @ string_of_nat (index + 1),
                             issue = ButtonNoText, severity = Elevee,
                             details = [(''buttonId'', buttonId)],
                             htmlSnippet = generateHTMLSnippet nd1\<rparr>]))))
             else Inr (sc, []))"

definition checkButtons :: "page \<Rightarrow> error + (page \<times> ReportIssue CategoryResult)" where
  "checkButtons p =
     (let buttons = ids_of (has_tag [''button'']) p
      in and_then (inject_style ''accessibility-button-styles'' ''accessibility-badge-button'' p)
           (\<lambda>p1. and_then (for_each_counting button_turn buttons 0 (p1, 0) [])
              (\<lambda>(p2, found). Inr (p2, category (length buttons) found))))"

subsection \<open>Landmarks\<close>

definition checkLandmarks :: "page \<Rightarrow> Issue CategoryResult" where
  "checkLandmarks p =
     (let hasMain = find (\<lambda>nd. has_tag [''main''] nd \<or> attr_is ''role'' ''main'' nd) (all_elements p);
          hasNav = find (\<lambda>nd. has_tag [''nav''] nd \<or> attr_is ''role'' ''navigation'' nd) (all_elements p);
          found = (if hasMain = None
                   then [\<lparr>element = ''Structure'', issue = NoMainLandmark, severity = Moyenne\<rparr>]
                   else [])
                  @ (if hasNav = None
                     then [\<lparr>element = ''Structure'', issue = NoNavLandmark, severity = Faible\<rparr>]
                     else [])
      in category 2 found)"

subsection \<open>Contrast, with the marking\<close>

definition createContrastBadge :: "node_id \<Rightarrow> string \<Rightarrow> page \<Rightarrow> error + page" where
  "createContrastBadge target cid p =
     (case parentElement p target of
        None \<Rightarrow> Inl TypeError
      | Some par \<Rightarrow>
          if querySelector_in (badge_for ''accessibility-badge-contrast'' cid) par \<noteq> None
          then Inr p
          else Inr (add_badge (ident (fst par)) ''accessibility-badge-contrast''
                      ''CONTRASTE FAIBLE'' cid None p))"

definition ensureContrastStyles :: "page \<Rightarrow> error + page" where
  "ensureContrastStyles p =
     and_then (inject_style ''accessibility-animation-styles'' ''pulse-red'' p)
       (inject_style ''accessibility-contrast-badge-style'' ''accessibility-badge-contrast'')"

definition contrast_turn :: "node_id \<Rightarrow> nat \<Rightarrow> page \<times> nat \<Rightarrow> error + ((page \<times> nat) \<times> (ContrastIssue \<times> string) list)" where
  "contrast_turn target index sc =
     and_then (element_at (fst sc) target)
       (\<lambda>nd.
          case processContrastElement (view nd) (snd sc) of
            None \<Rightarrow> Inr (sc, [])
          | Some found \<Rightarrow>
              (let p1 = modify target
                          (\<lambda>e. set_styles [(''outline'', ''3px solid #6b21a8''), (''outline-offset'', ''2px''),
                                             (''box-shadow'', ''0 0 15px rgba(107, 33, 168, 0.5)'')]
                                  (setAttribute ''data-accessibility-issue'' ''low-contrast''
                                    (setAttribute ''data-accessibility-id'' (contrastId found) e)))
                          (fst sc)
               in and_then (createContrastBadge target (contrastId found) p1)
                    (\<lambda>p2. and_then (ensureContrastStyles p2)
                       (\<lambda>p3. and_then (element_at p3 target)
                          (\<lambda>nd3. Inr ((p3, snd sc + 1), [(found, generateHTMLSnippet nd3)]))))))"

definition text_candidate :: "elem \<times> node list \<Rightarrow> bool" where
  "text_candidate nd \<longleftrightarrow>
     has_tag [''p'', ''h1'', ''h2'', ''h3'', ''h4'', ''h5'', ''h6'', ''a'', ''button'', ''span'',
              ''li'', ''td'', ''th'', ''label''] nd
     \<and> contrast_candidate (view nd)"

definition checkContrast_marking :: "page \<Rightarrow> error + (page \<times> (ContrastIssue \<times> string) CategoryResult)" where
  "checkContrast_marking p =
     (let allElements = filter text_candidate (all_elements p);
          interactiveElements = filter (\<lambda>nd. tag (fst nd) \<in> set interactive_tags) allElements;
          otherElements = filter (\<lambda>nd. tag (fst nd) \<notin> set interactive_tags) allElements;
          els = map (\<lambda>nd. ident (fst nd))
                  (take MAX_CONTRAST_ELEMENTS (interactiveElements @ otherElements))
      in and_then (for_each_counting contrast_turn els 0 (p, 0) [])
           (\<lambda>(p1, found). Inr (p1, category (length els) found)))"

subsection \<open>Clearing the marks of the previous audit\<close>

text \<open>One block of \<^verbatim>\<open>clearVisualFeedback\<close>: for every element whose
  \<^verbatim>\<open>data-accessibility-issue\<close> is one of \<open>kinds\<close>, the listed inline properties are set
  to the empty string, the two marker attributes are removed, the first element of class
  \<open>cls\<close> below the parent is removed, and the parent's position is restored.\<close>

definition clear_turn :: "string list \<Rightarrow> string \<Rightarrow> node_id \<Rightarrow> nat \<Rightarrow> page \<Rightarrow> error + (page \<times> unit list)" where
  "clear_turn properties cls target index p =
     (let p1 = modify target
                 (\<lambda>e. removeAttribute ''data-accessibility-id''
                         (removeAttribute ''data-accessibility-issue''
                           (set_styles (cleared properties) e))) p
      in case parentElement p1 target of
           None \<Rightarrow> Inl TypeError
         | Some par \<Rightarrow>
             Inr (restore_parent_position (ident (fst par))
                    (remove_badge_in (has_class cls) (ident (fst par)) p1), []))"

definition clear_marked :: "string list \<Rightarrow> string list \<Rightarrow> string \<Rightarrow> page \<Rightarrow> error + page" where
  "clear_marked kinds properties cls p =
     and_then
       (for_each (clear_turn properties cls)
          (ids_of (\<lambda>nd. case getAttribute (fst nd) ''data-accessibility-issue'' of
                          None \<Rightarrow> False | Some k \<Rightarrow> k \<in> set kinds) p)
          0 p [])
       (\<lambda>(p1, _). Inr p1)"

definition remove_all :: "(elem \<times> node list \<Rightarrow> bool) \<Rightarrow> page \<Rightarrow> page" where
  "remove_all sel p = foldl (\<lambda>q i. remove i q) p (ids_of sel p)"

definition remove_by_id :: "string \<Rightarrow> page \<Rightarrow> page" where
  "remove_by_id i p =
     (case getElementById p i of None \<Rightarrow> p | Some nd \<Rightarrow> remove (ident (fst nd)) p)"

definition clearVisualFeedback :: "page \<Rightarrow> error + page" where
  "clearVisualFeedback p =
     and_then (clear_marked [''missing-alt'']
                 [''border'', ''outline'', ''outline-offset'', ''box-shadow'', ''animation'']
                 ''accessibility-badge'' p)
    (\<lambda>p. and_then (clear_marked [''missing-text'', ''bad-text'']
                 [''outline'', ''outline-offset''] ''accessibility-badge-link'' p)
    (\<lambda>p. and_then (clear_marked [''svg-no-desc'']
                 [''outline'', ''outline-offset'', ''box-shadow''] ''accessibility-badge-svg'' p)
    (\<lambda>p. and_then (clear_marked [''heading-skip'', ''heading-empty'']
                 [''outline'', ''outline-offset''] ''accessibility-badge-heading'' p)
    (\<lambda>p. and_then (clear_marked [''form-no-label'']
                 [''outline'', ''outline-offset''] ''accessibility-badge-form'' p)
    (\<lambda>p. and_then (clear_marked [''button-no-text'']
                 [''outline'', ''outline-offset''] ''accessibility-badge-button'' p)
    (\<lambda>p. and_then (clear_marked [''low-contrast'']
                 [''outline'', ''outline-offset'', ''box-shadow''] ''accessibility-badge-contrast'' p)
    (\<lambda>p. Inr
       (remove_by_id ''accessibility-contrast-badge-style''
       (remove_by_id ''accessibility-animation-styles''
       (remove_all (has_class ''accessibility-badge-contrast'')
       (remove_all (has_class ''accessibility-badge-button'')
       (remove_all (has_class ''accessibility-badge-form'')
       (remove_all (has_class ''accessibility-badge-heading'')
       (remove_all (has_class ''accessibility-badge-svg'')
       (remove_all (has_class ''accessibility-badge-link'')
       (remove_all (has_class ''accessibility-badge'') p))))))))))))))))"

subsection \<open>The audit\<close>

record AuditReport =
  images :: "ReportIssue CategoryResult"
  svg :: "ReportIssue CategoryResult"
  links :: "ReportIssue CategoryResult"
  headings :: "(HeadingIssue \<times> string option) CategoryResult"
  forms :: "ReportIssue CategoryResult"
  contrast :: "(ContrastIssue \<times> string) CategoryResult"
  colorblind :: "ReportIssue CategoryResult"
  lang :: "Issue CategoryResult"
  landmarks :: "Issue CategoryResult"
  buttons :: "ReportIssue CategoryResult"

definition auditAccessibility :: "page \<Rightarrow> error + (page \<times> AuditReport)" where
  "auditAccessibility p0 =
     and_then (clearVisualFeedback p0) (\<lambda>p.
     and_then (checkImages p) (\<lambda>(p, r_images).
     and_then (checkSVG p) (\<lambda>(p, r_svg).
     and_then (checkLinks p) (\<lambda>(p, r_links).
     and_then (checkHeadings_marking p) (\<lambda>(p, r_headings).
     and_then (checkForms p) (\<lambda>(p, r_forms).
     and_then (checkContrast_marking p) (\<lambda>(p, r_contrast).
     and_then (checkLanguage (snapshot p)) (\<lambda>r_lang.
     and_then (checkButtons p) (\<lambda>(p, r_buttons).
       Inr (p, \<lparr>images = r_images, svg = r_svg, links = r_links, headings = r_headings,
                forms = r_forms, contrast = r_contrast, colorblind = category 0 [],
                lang = r_lang, landmarks = checkLandmarks p, buttons = r_buttons\<rparr>))))))))))"

subsection \<open>A page for the examples\<close>

text \<open>An element node that the page does not style, and a string between double
  quotes.\<close>

definition element_node :: "node_id \<Rightarrow> string \<Rightarrow> (string \<times> string) list \<Rightarrow> (string \<times> string) list option \<Rightarrow> node list \<Rightarrow> node" where
  "element_node i t as ds ks =
     ElementNode \<lparr>ident = i, tag = t, attrs = as, inline = ds, computed = initial_style,
                  cssPosition = ''static''\<rparr> ks"

definition quoted :: "string \<Rightarrow> string" where
  "quoted s = [CHR 0x22] @ s @ [CHR 0x22]"

text \<open>The page
  \<^verbatim>\<open><html lang="fr"><head></head><body><main><nav><a href="/x"><button style="outline: 1px solid red;"></button></a></nav></main></body></html>\<close>:
  a link without text around a button without text, the button with an outline of the page's
  own.\<close>

definition button_in_link :: page where
  "button_in_link =
     \<lparr>tree = Some
        (element_node 0 ''HTML'' [(''lang'', ''fr'')] None
          [element_node 1 ''HEAD'' [] None [],
           element_node 2 ''BODY'' [] None
             [element_node 3 ''MAIN'' [] None
               [element_node 4 ''NAV'' [] None
                 [element_node 5 ''A'' [(''href'', ''/x'')] None
                   [element_node 6 ''BUTTON'' []
                      (Some [(''outline'', ''1px solid red'')]) []]]]]]),
      fresh = 7\<rparr>"


section \<open>Properties\<close>

subsection \<open>Numbers that are stored as they are\<close>

text \<open>The threshold as a numeral, for the evaluation of examples.\<close>

lemma overflow_threshold_numeral [code]:
  "overflow_threshold = 179769313486231580793728971405303415079934132710037826936173778980444968292764750946649017977587207096330286416692887910946555547851940402630657488671505820681908902000708383676273854845817711531764475730270069855571366959622842914819860834936475292719074168444365510704342711559699508093042880177904174497792"
  by (simp add: overflow_threshold_def)

lemma overflow_threshold_large: "10 ^ 300 + 1 < overflow_threshold"
  by (simp add: overflow_threshold_numeral)

lemma stored_small: "\<bar>x\<bar> \<le> 10 ^ 300 \<Longrightarrow> stored x = Num x"
  using overflow_threshold_large by (simp add: stored_def abs_le_iff)

lemma stored_nonneg: "0 \<le> x \<Longrightarrow> stored x = PosInf \<or> stored x = Num x"
  using overflow_threshold_large by (auto simp: stored_def)

lemma foldl_digits_nonneg:
  "0 \<le> acc \<Longrightarrow> 0 \<le> foldl (\<lambda>acc c. acc * int radix + int (digit_value c)) acc ds"
  by (induction ds arbitrary: acc) simp_all

lemma digits_value_nonneg: "0 \<le> digits_value radix ds"
  unfolding digits_value_def by (rule foldl_digits_nonneg) simp

lemma bit_length_le: "n < 2 ^ m \<Longrightarrow> bit_length n \<le> m"
proof (induction m arbitrary: n)
  case 0
  then show ?case by (simp add: bit_length.simps)
next
  case (Suc m)
  show ?case
  proof (cases "n \<le> 0")
    case True
    then show ?thesis by (simp add: bit_length.simps)
  next
    case False
    have "n div 2 < 2 ^ m" using Suc.prems by simp
    then have "bit_length (n div 2) \<le> m" by (rule Suc.IH)
    then show ?thesis using False by (subst bit_length.simps) simp
  qed
qed

lemma bit_length_lower: "0 < n \<Longrightarrow> 2 ^ (bit_length n - 1) \<le> n"
proof (induction n rule: bit_length.induct)
  case (1 n)
  show ?case
  proof (cases "n div 2 \<le> 0")
    case True
    then have "n = 1" using 1(2) by linarith
    then show ?thesis by (simp add: bit_length.simps)
  next
    case False
    then have ih: "2 ^ (bit_length (n div 2) - 1) \<le> n div 2"
      using 1 by simp
    have pos: "0 < bit_length (n div 2)" using False by (subst bit_length.simps) simp
    have "bit_length n = Suc (bit_length (n div 2))" using 1(2) by (subst bit_length.simps) simp
    then have "2 ^ (bit_length n - 1) = (2::int) * 2 ^ (bit_length (n div 2) - 1)"
      using pos by (cases "bit_length (n div 2)") simp_all
    also have "\<dots> \<le> 2 * (n div 2)" using ih by simp
    also have "\<dots> \<le> n" by simp
    finally show ?thesis .
  qed
qed

lemma round_half_even_one: "round_half_even n 1 = n"
  by (simp add: round_half_even_def)

lemma round_half_even_ge: "0 < d \<Longrightarrow> n div d \<le> round_half_even n d"
  by (simp add: round_half_even_def Let_def)

lemma double_of_int_small:
  assumes "0 \<le> n" and "n < 2 ^ 53"
  shows "double_of_int n = Num (of_int n)"
proof -
  have "bit_length n - 53 = 0" using bit_length_le[OF assms(2)] by simp
  moreover have "\<bar>real_of_int n\<bar> \<le> 10 ^ 300"
  proof -
    have "n \<le> 10 ^ 300" using assms(2) by simp
    then have "real_of_int n \<le> real_of_int (10 ^ 300)" by (rule of_int_le_iff[THEN iffD2])
    then show ?thesis using assms(1) by simp
  qed
  ultimately show ?thesis
    by (simp add: double_of_int_def round_half_even_one stored_small)
qed

lemma bit_length_upper: "n < 2 ^ bit_length n"
proof (induction n rule: bit_length.induct)
  case (1 n)
  show ?case
  proof (cases "n \<le> 0")
    case True
    then show ?thesis by (simp add: bit_length.simps)
  next
    case False
    then have ih: "n div 2 < 2 ^ bit_length (n div 2)" using 1 by simp
    have "bit_length n = Suc (bit_length (n div 2))" using False by (subst bit_length.simps) simp
    moreover have "n < 2 * (n div 2 + 1)" by presburger
    ultimately show ?thesis using ih by simp
  qed
qed

lemma div_power_lower:
  fixes n :: int
  assumes "2 ^ m * 2 ^ k \<le> n"
  shows "2 ^ m \<le> n div 2 ^ k"
proof -
  have "(2 ^ m * 2 ^ k) div 2 ^ k \<le> n div 2 ^ k"
    by (rule zdiv_mono1[OF assms]) simp
  then show ?thesis by simp
qed

lemma double_of_int_large:
  assumes "2 ^ 53 \<le> n"
  shows "double_of_int n = PosInf \<or> (\<exists>v. 2 ^ 53 \<le> v \<and> double_of_int n = Num v)"
proof -
  define k where "k = bit_length n - 53"
  define d :: int where "d = 2 ^ k"
  define q where "q = round_half_even n d"
  have "(0::int) < 2 ^ 53" by simp
  then have npos: "0 < n" using assms by (rule less_le_trans)
  have big: "53 < bit_length n"
  proof (rule ccontr)
    assume "\<not> 53 < bit_length n"
    then have le: "bit_length n \<le> 53" by simp
    have "(2::int) ^ bit_length n \<le> 2 ^ 53"
      by (rule power_increasing[OF le]) simp
    moreover have "n < 2 ^ bit_length n" by (rule bit_length_upper)
    ultimately have "n < 2 ^ 53" by (rule less_le_trans[rotated])
    with assms show False using leD by blast
  qed
  then obtain j where k: "k = Suc j" and bl: "bit_length n - 1 = 52 + k"
    by (cases k) (simp_all add: k_def)
  have dpos: "0 < d" by (simp add: d_def)
  have d2: "2 \<le> d" unfolding d_def k by simp
  have "2 ^ 52 * 2 ^ k \<le> n"
    using bit_length_lower[OF npos] unfolding bl by (simp only: power_add)
  then have "2 ^ 52 \<le> n div d" unfolding d_def by (rule div_power_lower)
  also have "n div d \<le> q" unfolding q_def by (rule round_half_even_ge[OF dpos])
  finally have q52: "2 ^ 52 \<le> q" .
  have "(2::int) ^ 52 * 2 \<le> q * d"
    by (rule mult_mono[OF q52 d2]) (use q52 in simp_all)
  then have v: "2 ^ 53 \<le> q * d" by simp
  have rv: "(2::real) ^ 53 \<le> of_int (q * d)"
  proof -
    have "real_of_int (2 ^ 53) \<le> real_of_int (q * d)" using v by (simp only: of_int_le_iff)
    then show ?thesis by simp
  qed
  have eq: "double_of_int n = stored (of_int (q * d))"
    by (simp add: double_of_int_def k_def d_def q_def)
  have "0 \<le> (of_int (q * d) :: real)" using rv by simp
  from stored_nonneg[OF this] show ?thesis unfolding eq using rv by blast
qed

lemma double_of_int_nonneg: "0 \<le> n \<Longrightarrow> js_ge (double_of_int n) (Num 0)"
proof (cases "n < 2 ^ 53")
  case True
  assume "0 \<le> n"
  then show ?thesis using double_of_int_small[OF _ True] by (simp add: js_ge_def)
next
  case False
  then have "2 ^ 53 \<le> n" by simp
  from double_of_int_large[OF this] show ?thesis
    by (auto simp: js_ge_def)
qed

subsection \<open>Digits and \<^verbatim>\<open>parseInt\<close>\<close>

lemma is_digit_cases:
  "is_digit c \<Longrightarrow> digit_value c < 10 \<and> \<not> is_space c \<and> c \<noteq> CHR ''-'' \<and> c \<noteq> CHR ''+''
     \<and> c \<noteq> CHR ''x'' \<and> c \<noteq> CHR ''X''"
  by (auto simp: is_digit_def digit_value_def is_space_def)

lemma is_hex_digit_cases:
  "is_hex_digit c \<Longrightarrow> digit_value c < 16 \<and> \<not> is_space c \<and> c \<noteq> CHR ''-'' \<and> c \<noteq> CHR ''+''
     \<and> c \<noteq> CHR ''x'' \<and> c \<noteq> CHR ''X''"
  by (auto simp: is_hex_digit_def digit_value_def is_space_def)

lemma takeWhile_all: "list_all P xs \<Longrightarrow> takeWhile P xs = xs"
  by (induction xs) auto

lemma parseInt_digits:
  assumes ne: "ds \<noteq> []" and dig: "list_all is_digit ds"
  shows "parseInt ds None = double_of_int (digits_value 10 ds)"
proof -
  obtain c cs where ds: "ds = c # cs" using ne by (cases ds) auto
  have c: "is_digit c" using dig ds by simp
  note cf = is_digit_cases[OF c]
  have dw: "dropWhile is_space ds = ds" using cf ds by simp
  have all: "list_all (\<lambda>c. digit_value c < 10) ds"
    using dig by (induction ds) (auto dest: is_digit_cases)
  have tw: "takeWhile (\<lambda>c. digit_value c < 10) ds = ds" by (rule takeWhile_all[OF all])
  have neg: "(case ds of c # _ \<Rightarrow> c = CHR ''-'' | [] \<Rightarrow> False) = False"
    using cf ds by simp
  have s2: "(case ds of c # t \<Rightarrow> if c = CHR ''-'' \<or> c = CHR ''+'' then t else ds | [] \<Rightarrow> ds) = ds"
    using cf ds by simp
  have nox: "(take 2 ds = ''0x'') = False" "(take 2 ds = ''0X'') = False"
    using dig ds by (cases cs; auto dest: is_digit_cases)+
  show ?thesis
    unfolding parseInt_def dw Let_def neg s2
    by (simp add: nox tw ne)
qed

lemma parseInt_hex_pair:
  assumes "is_hex_digit c" and "is_hex_digit d"
  shows "parseInt [c, d] (Some 16) = Num (real (digit_value c * 16 + digit_value d))"
proof -
  note c = is_hex_digit_cases[OF assms(1)] and d = is_hex_digit_cases[OF assms(2)]
  have v: "digits_value 16 [c, d] = int (digit_value c * 16 + digit_value d)"
    by (simp add: digits_value_def)
  have small: "int (digit_value c * 16 + digit_value d) < 2 ^ 53" using c d by simp
  have "parseInt [c, d] (Some 16) = double_of_int (digits_value 16 [c, d])"
    using c d by (simp add: parseInt_def)
  then show ?thesis
    unfolding v using double_of_int_small[OF _ small] by simp
qed

lemma hex_pair_bound:
  assumes "is_hex_digit c" and "is_hex_digit d"
  shows "digit_value c * 16 + digit_value d \<le> 255"
  using is_hex_digit_cases[OF assms(1)] is_hex_digit_cases[OF assms(2)] by simp

subsection \<open>What the two patterns capture\<close>

lemma capture_Some:
  "capture cls s = Some (m, rest) \<Longrightarrow> m \<noteq> [] \<and> list_all cls m"
  by (auto simp: capture_def Let_def list_all_iff split: if_splits dest: set_takeWhileD)

lemma component_Some:
  "component s = Some (d, rest) \<Longrightarrow> d \<noteq> [] \<and> list_all is_digit d"
  by (auto simp: component_def split: option.splits dest: capture_Some)

lemma rgb_at_groups:
  assumes "rgb_at s = Some (g1, g2, g3, g4)"
  shows "(g1 \<noteq> [] \<and> list_all is_digit g1) \<and> (g2 \<noteq> [] \<and> list_all is_digit g2)
         \<and> (g3 \<noteq> [] \<and> list_all is_digit g3)"
  using assms unfolding rgb_at_def
  by (auto split: option.splits dest!: component_Some)

lemma rgbMatch_groups:
  "rgbMatch s = Some (g1, g2, g3, g4) \<Longrightarrow>
     (g1 \<noteq> [] \<and> list_all is_digit g1) \<and> (g2 \<noteq> [] \<and> list_all is_digit g2)
     \<and> (g3 \<noteq> [] \<and> list_all is_digit g3)"
proof (induction s)
  case Nil
  then show ?case using rgb_at_groups by simp
next
  case (Cons c cs)
  then show ?case using rgb_at_groups by (auto split: option.splits)
qed

lemma hexMatch_Some:
  "hexMatch s = Some h \<Longrightarrow> (length h = 3 \<or> length h = 6) \<and> list_all is_hex_digit h"
  by (auto simp: hexMatch_def split: list.splits if_splits)

lemma colorMap_lookup_Color:
  assumes "colorMap_lookup key = Color c"
  shows "c \<in> snd ` set colorMap"
  using assms
  by (auto simp: colorMap_lookup_def split: option.splits if_splits dest!: map_of_SomeD intro: rev_image_eqI)

lemma length3: "length h = 3 \<Longrightarrow> \<exists>x y z. h = [x, y, z]"
  by (cases h; simp; cases "tl h"; simp; cases "tl (tl h)"; simp)

lemma length6: "length h = 6 \<Longrightarrow> \<exists>u v w x y z. h = [u, v, w, x, y, z]"
  by (auto simp: length_Suc_conv eval_nat_numeral)


text \<open>The three cases of a parse that yields a colour.\<close>

lemma parseColor_Color_cases:
  assumes "parseColor s = Color c"
  obtains
    (rgb) g1 g2 g3 g4 where "rgbMatch s = Some (g1, g2, g3, g4)"
      "c = \<lparr>r = double_of_int (digits_value 10 g1), g = double_of_int (digits_value 10 g2),
            b = double_of_int (digits_value 10 g3),
            a = (case g4 of Some x \<Rightarrow> parseFloat x | None \<Rightarrow> Num 1)\<rparr>"
  | (hex) u v w x y z where "rgbMatch s = None"
      "c = \<lparr>r = Num (real (digit_value u * 16 + digit_value v)),
            g = Num (real (digit_value w * 16 + digit_value x)),
            b = Num (real (digit_value y * 16 + digit_value z)), a = Num 1\<rparr>"
      "is_hex_digit u" "is_hex_digit v" "is_hex_digit w" "is_hex_digit x" "is_hex_digit y" "is_hex_digit z"
  | (named) "rgbMatch s = None" "c \<in> snd ` set colorMap"
proof (cases "rgbMatch s")
  case (Some m)
  obtain g1 g2 g3 g4 where m: "m = (g1, g2, g3, g4)" by (cases m) auto
  note gr = rgbMatch_groups[OF Some[unfolded m]]
  have "c = \<lparr>r = parseInt g1 None, g = parseInt g2 None, b = parseInt g3 None,
             a = (case g4 of Some x \<Rightarrow> parseFloat x | None \<Rightarrow> Num 1)\<rparr>"
    using assms Some m by (auto simp: parseColor_def split: if_splits)
  then show ?thesis
    using gr Some m by (intro rgb[of g1 g2 g3 g4]) (simp_all add: parseInt_digits)
next
  case None
  show ?thesis
  proof (cases "hexMatch s")
    case (Some h)
    note hm = hexMatch_Some[OF Some]
    define hex where "hex = (if length h = 3 then concat (map (\<lambda>c. [c, c]) h) else h)"
    have c: "c = \<lparr>r = parseInt (slice 0 2 hex) (Some 16), g = parseInt (slice 2 4 hex) (Some 16),
                   b = parseInt (slice 4 6 hex) (Some 16), a = Num 1\<rparr>"
      using assms None Some
      by (auto simp: parseColor_def hex_def Let_def HEX_SHORT_LENGTH_def HEX_COMPONENT_LENGTH_def
            HEX_BLUE_START_INDEX_def HEX_RADIX_def split: if_splits)
    have "\<exists>u v w x y z. hex = [u, v, w, x, y, z] \<and> list_all is_hex_digit hex"
      using hm by (auto simp: hex_def dest!: length3 length6)
    then obtain u v w x y z where h6: "hex = [u, v, w, x, y, z]" and hd: "list_all is_hex_digit hex"
      by blast
    show ?thesis
      using hd None unfolding h6
      by (intro hex[of u v w x y z]) (simp_all add: c h6 slice_def parseInt_hex_pair)
  next
    case hNone: None
    have "colorMap_lookup (toLowerCase s) = Color c"
      using assms None hNone by (auto simp: parseColor_def split: if_splits)
    then show ?thesis using None by (intro named) (auto dest: colorMap_lookup_Color)
  qed
qed

text \<open>A colour that does not come from the rgb pattern has components from 0 to 255.\<close>

lemma parseColor_table_components:
  assumes "parseColor s = Color c" and "rgbMatch s = None"
  shows "\<exists>i j k::nat. i \<le> 255 \<and> j \<le> 255 \<and> k \<le> 255
           \<and> c = \<lparr>r = Num (real i), g = Num (real j), b = Num (real k), a = Num 1\<rparr>"
  using assms(1)
proof (cases rule: parseColor_Color_cases)
  case (rgb g1 g2 g3 g4)
  then show ?thesis using assms(2) by simp
next
  case (hex u v w x y z)
  have "digit_value u * 16 + digit_value v \<le> 255" "digit_value w * 16 + digit_value x \<le> 255"
    "digit_value y * 16 + digit_value z \<le> 255"
    using hex by (simp_all add: hex_pair_bound)
  then show ?thesis
    by (intro exI[of _ "digit_value u * 16 + digit_value v"]
          exI[of _ "digit_value w * 16 + digit_value x"]
          exI[of _ "digit_value y * 16 + digit_value z"])
       (simp add: hex(2) del: of_nat_add of_nat_mult)
next
  case named
  have white: "\<exists>i j k::nat. i \<le> 255 \<and> j \<le> 255 \<and> k \<le> 255 \<and>
      \<lparr>r = Num 255, g = Num 255, b = Num 255, a = Num 1\<rparr>
        = \<lparr>r = Num (real i), g = Num (real j), b = Num (real k), a = Num 1\<rparr>"
    by (rule exI[of _ 255], rule exI[of _ 255], rule exI[of _ 255]) simp
  have black: "\<exists>i j k::nat. i \<le> 255 \<and> j \<le> 255 \<and> k \<le> 255 \<and>
      \<lparr>r = Num 0, g = Num 0, b = Num 0, a = Num 1\<rparr>
        = \<lparr>r = Num (real i), g = Num (real j), b = Num (real k), a = Num 1\<rparr>"
    by (rule exI[of _ 0], rule exI[of _ 0], rule exI[of _ 0]) simp
  have red: "\<exists>i j k::nat. i \<le> 255 \<and> j \<le> 255 \<and> k \<le> 255 \<and>
      \<lparr>r = Num 255, g = Num 0, b = Num 0, a = Num 1\<rparr>
        = \<lparr>r = Num (real i), g = Num (real j), b = Num (real k), a = Num 1\<rparr>"
    by (rule exI[of _ 255], rule exI[of _ 0], rule exI[of _ 0]) simp
  have green: "\<exists>i j k::nat. i \<le> 255 \<and> j \<le> 255 \<and> k \<le> 255 \<and>
      \<lparr>r = Num 0, g = Num 128, b = Num 0, a = Num 1\<rparr>
        = \<lparr>r = Num (real i), g = Num (real j), b = Num (real k), a = Num 1\<rparr>"
    by (rule exI[of _ 0], rule exI[of _ 128], rule exI[of _ 0]) simp
  have blue: "\<exists>i j k::nat. i \<le> 255 \<and> j \<le> 255 \<and> k \<le> 255 \<and>
      \<lparr>r = Num 0, g = Num 0, b = Num 255, a = Num 1\<rparr>
        = \<lparr>r = Num (real i), g = Num (real j), b = Num (real k), a = Num 1\<rparr>"
    by (rule exI[of _ 0], rule exI[of _ 0], rule exI[of _ 255]) simp
  show ?thesis
    using named(2) white black red green blue unfolding colorMap_def by auto
qed

text \<open>What \<^verbatim>\<open>parseInt\<close> makes of a run of decimal digits: its value when that is below
  \<open>2 ^ 53\<close>, and otherwise a number of at least \<open>2 ^ 53\<close> or the infinity.\<close>

lemma double_of_digits:
  "(digits_value 10 ds < 2 ^ 53 \<longrightarrow> double_of_int (digits_value 10 ds) = Num (of_int (digits_value 10 ds)))
   \<and> (2 ^ 53 \<le> digits_value 10 ds \<longrightarrow>
        double_of_int (digits_value 10 ds) = PosInf
        \<or> (\<exists>v. 2 ^ 53 \<le> v \<and> double_of_int (digits_value 10 ds) = Num v))"
  using double_of_int_small[OF digits_value_nonneg, of 10 ds] double_of_int_large[of "digits_value 10 ds"]
  by blast

lemma parseColor_nonneg:
  assumes "parseColor s = Color c"
  shows "js_ge (r c) (Num 0) \<and> js_ge (g c) (Num 0) \<and> js_ge (b c) (Num 0)"
  using assms
proof (cases rule: parseColor_Color_cases)
  case (rgb g1 g2 g3 g4)
  then show ?thesis by (simp add: double_of_int_nonneg digits_value_nonneg)
next
  case (hex u v w x y z)
  then show ?thesis by (simp add: js_ge_def)
next
  case named
  obtain i j k :: nat where "c = \<lparr>r = Num (real i), g = Num (real j), b = Num (real k), a = Num 1\<rparr>"
    using parseColor_table_components[OF assms named(1)] by blast
  then show ?thesis by (simp add: js_ge_def)
qed

subsection \<open>Luminance and ratio\<close>

lemmas colour_constants =
  RGB_MAX_VALUE_def SRGB_THRESHOLD_def SRGB_LINEAR_DIVISOR_def SRGB_OFFSET_def
  SRGB_GAMMA_DIVISOR_def SRGB_GAMMA_EXPONENT_def LUMINANCE_RED_COEFFICIENT_def
  LUMINANCE_GREEN_COEFFICIENT_def LUMINANCE_BLUE_COEFFICIENT_def CONTRAST_OFFSET_def

lemma stored_range: "0 \<le> x \<Longrightarrow> x \<le> 10 ^ 300 + 1 \<Longrightarrow> stored x = Num x"
  using overflow_threshold_large by (simp add: stored_def)

lemma NaN_right [simp]:
  "js_add x NaN = NaN" "js_mul x NaN = NaN" "js_div x NaN = NaN" "js_max x NaN = NaN"
  "js_min x NaN = NaN"
  by (cases x; simp)+

text \<open>The luminance of a component between 0 and a bound \<open>B\<close>, when every number up to
  \<open>B ^ 3 + 1\<close> is stored as it is.\<close>

lemma getRGBLuminance_bounded:
  fixes B M :: real
  assumes st: "\<And>t. 0 \<le> t \<Longrightarrow> t \<le> M + 1 \<Longrightarrow> stored t = Num t"
    and B: "1 \<le> B" "B ^ 3 \<le> M" and x: "0 \<le> x" "x \<le> B"
  shows "\<exists>y. 0 \<le> y \<and> y \<le> M \<and> getRGBLuminance (Num x) = Num y"
proof -
  have "B ^ 1 \<le> B ^ 3" using B(1) by (intro power_increasing) simp_all
  then have BM: "B \<le> M" using B(2) by simp
  have q: "js_div (Num x) (Num 255) = Num (x / 255)"
    using x BM by (simp add: st)
  show ?thesis
  proof (cases "x / 255 \<le> 0.03928")
    case True
    have d: "js_div (Num (x / 255)) (Num 12.92) = Num (x / 255 / 12.92)"
      using x BM by (simp add: st)
    have "getRGBLuminance (Num x) = Num (x / 255 / 12.92)"
      unfolding getRGBLuminance_def colour_constants Let_def q
      using True by (simp only: js_le.simps if_True d)
    moreover have "0 \<le> x / 255 / 12.92" "x / 255 / 12.92 \<le> M" using x BM by simp_all
    ultimately show ?thesis by blast
  next
    case False
    define base where "base = (x / 255 + 0.055) / 1.055"
    have b0: "0 < base" and b1: "base \<le> B" using x B(1) by (simp_all add: base_def)
    have bound: "base powr 2.4 \<le> M"
    proof (cases "base \<le> 1")
      case True
      have "base powr 2.4 \<le> 1" using b0 True by (intro powr_le1) simp_all
      also have "1 \<le> B ^ 3" using B(1) by simp
      finally show ?thesis using B(2) by simp
    next
      case False
      then have "base powr 2.4 \<le> base powr 3" by (intro powr_mono) simp_all
      also have "\<dots> = base ^ 3" using b0 by (simp add: powr_numeral)
      also have "\<dots> \<le> B ^ 3" using b0 b1 by (intro power_mono) simp_all
      finally show ?thesis using B(2) by simp
    qed
    have s1: "js_add (Num (x / 255)) (Num 0.055) = Num (x / 255 + 0.055)"
      using x BM by (simp add: st)
    have s2: "js_div (Num (x / 255 + 0.055)) (Num 1.055) = Num base"
    proof -
      have "js_div (Num (x / 255 + 0.055)) (Num 1.055) = stored base"
        by (simp add: base_def)
      moreover have "stored base = Num base" using b0 b1 BM by (intro st) simp_all
      ultimately show ?thesis by simp
    qed
    have s3: "js_pow (Num base) (Num 2.4) = Num (base powr 2.4)"
    proof -
      have "js_pow (Num base) (Num 2.4) = stored (base powr 2.4)" using b0 by simp
      moreover have "stored (base powr 2.4) = Num (base powr 2.4)" using bound by (intro st) simp_all
      ultimately show ?thesis by simp
    qed
    have "getRGBLuminance (Num x) = Num (base powr 2.4)"
      unfolding getRGBLuminance_def colour_constants Let_def q
      using False by (simp only: js_le.simps if_False s1 s2 s3)
    moreover have "0 \<le> base powr 2.4" by simp
    ultimately show ?thesis using bound by blast
  qed
qed

lemma getRelativeLuminance_bounded:
  fixes B M :: real
  assumes st: "\<And>t. 0 \<le> t \<Longrightarrow> t \<le> M + 1 \<Longrightarrow> stored t = Num t"
    and B: "1 \<le> B" "B ^ 3 \<le> M"
    and v: "0 \<le> x" "x \<le> B" "0 \<le> y" "y \<le> B" "0 \<le> z" "z \<le> B"
  shows "\<exists>l. 0 \<le> l \<and> l \<le> M \<and> getRelativeLuminance (Num x) (Num y) (Num z) = Num l"
proof -
  obtain x' where x: "0 \<le> x'" "x' \<le> M" "getRGBLuminance (Num x) = Num x'"
    using getRGBLuminance_bounded[OF st B v(1,2)] by blast
  obtain y' where y: "0 \<le> y'" "y' \<le> M" "getRGBLuminance (Num y) = Num y'"
    using getRGBLuminance_bounded[OF st B v(3,4)] by blast
  obtain z' where z: "0 \<le> z'" "z' \<le> M" "getRGBLuminance (Num z) = Num z'"
    using getRGBLuminance_bounded[OF st B v(5,6)] by blast
  have m1: "js_mul (Num 0.2126) (Num x') = Num (0.2126 * x')"
  proof -
    have "stored (0.2126 * x') = Num (0.2126 * x')" using x by (intro st) simp_all
    then show ?thesis by simp
  qed
  have m2: "js_mul (Num 0.7152) (Num y') = Num (0.7152 * y')"
  proof -
    have "stored (0.7152 * y') = Num (0.7152 * y')" using y by (intro st) simp_all
    then show ?thesis by simp
  qed
  have m3: "js_mul (Num 0.0722) (Num z') = Num (0.0722 * z')"
  proof -
    have "stored (0.0722 * z') = Num (0.0722 * z')" using z by (intro st) simp_all
    then show ?thesis by simp
  qed
  have a1: "js_add (Num (0.2126 * x')) (Num (0.7152 * y')) = Num (0.2126 * x' + 0.7152 * y')"
  proof -
    have "stored (0.2126 * x' + 0.7152 * y') = Num (0.2126 * x' + 0.7152 * y')"
      using x y by (intro st) simp_all
    then show ?thesis by simp
  qed
  have a2: "js_add (Num (0.2126 * x' + 0.7152 * y')) (Num (0.0722 * z'))
              = Num (0.2126 * x' + 0.7152 * y' + 0.0722 * z')"
  proof -
    have "stored (0.2126 * x' + 0.7152 * y' + 0.0722 * z') = Num (0.2126 * x' + 0.7152 * y' + 0.0722 * z')"
      using x y z by (intro st) simp_all
    then show ?thesis by simp
  qed
  have "getRelativeLuminance (Num x) (Num y) (Num z) = Num (0.2126 * x' + 0.7152 * y' + 0.0722 * z')"
    unfolding getRelativeLuminance_def colour_constants Let_def x(3) y(3) z(3)
    by (simp only: m1 m2 m3 a1 a2)
  moreover have "0 \<le> 0.2126 * x' + 0.7152 * y' + 0.0722 * z'" using x y z by simp
  moreover have "0.2126 * x' + 0.7152 * y' + 0.0722 * z' \<le> M" using x y z by simp
  ultimately show ?thesis by blast
qed

lemma getRelativeLuminance_range:
  assumes "0 \<le> x" "x \<le> 10 ^ 100" "0 \<le> y" "y \<le> 10 ^ 100" "0 \<le> z" "z \<le> 10 ^ 100"
  shows "\<exists>l. 0 \<le> l \<and> l \<le> 10 ^ 300 \<and> getRelativeLuminance (Num x) (Num y) (Num z) = Num l"
proof (rule getRelativeLuminance_bounded[where B = "10 ^ 100" and M = "10 ^ 300"])
  show "((10::real) ^ 100) ^ 3 \<le> 10 ^ 300" by (simp only: power_mult[symmetric]) simp
qed (use assms stored_range in simp_all)

lemma js_max_commute: "js_max x y = js_max y x"
  by (cases x; cases y) (simp_all add: max.commute)

lemma js_min_commute: "js_min x y = js_min y x"
  by (cases x; cases y) (simp_all add: min.commute)

lemma luminance_black: "getRelativeLuminance (Num 0) (Num 0) (Num 0) = Num 0"
  by (simp add: getRelativeLuminance_def getRGBLuminance_def colour_constants stored_range)

lemma luminance_white: "getRelativeLuminance (Num 255) (Num 255) (Num 255) = Num 1"
  by (simp add: getRelativeLuminance_def getRGBLuminance_def colour_constants stored_range)

lemma luminance_NaN: "getRelativeLuminance NaN NaN NaN = NaN"
  by (simp add: getRelativeLuminance_def getRGBLuminance_def colour_constants)

lemma component_in_range:
  assumes "js_ge v (Num 0)" and "js_le v (Num (10 ^ 100))"
  shows "\<exists>x. 0 \<le> x \<and> x \<le> 10 ^ 100 \<and> v = Num x"
  using assms by (cases v) (simp_all add: js_ge_def)

lemma contrast_ratio_self:
  assumes p: "parseColor x = Color c"
    and le: "js_le (r c) (Num (10 ^ 100))" "js_le (g c) (Num (10 ^ 100))" "js_le (b c) (Num (10 ^ 100))"
  shows "calculateContrastRatio x x = Num 1"
proof -
  note ge = parseColor_nonneg[OF p]
  obtain rv where rv: "0 \<le> rv" "rv \<le> 10 ^ 100" "r c = Num rv"
    using component_in_range ge le(1) by blast
  obtain gv where gv: "0 \<le> gv" "gv \<le> 10 ^ 100" "g c = Num gv"
    using component_in_range ge le(2) by blast
  obtain bv where bv: "0 \<le> bv" "bv \<le> 10 ^ 100" "b c = Num bv"
    using component_in_range ge le(3) by blast
  obtain l where l: "0 \<le> l" "l \<le> 10 ^ 300" "getRelativeLuminance (r c) (g c) (b c) = Num l"
    using getRelativeLuminance_range[OF rv(1,2) gv(1,2) bv(1,2)] rv(3) gv(3) bv(3) by auto
  have s: "js_add (Num l) (Num 0.05) = Num (l + 0.05)"
  proof -
    have "stored (l + 0.05) = Num (l + 0.05)" using l by (intro stored_range) simp_all
    then show ?thesis by simp
  qed
  have d: "js_div (Num (l + 0.05)) (Num (l + 0.05)) = Num 1"
  proof -
    have "l + 0.05 \<noteq> 0" using l(1) by simp
    then have "js_div (Num (l + 0.05)) (Num (l + 0.05)) = stored 1" by simp
    then show ?thesis by (simp add: stored_range)
  qed
  show ?thesis
    unfolding calculateContrastRatio_def p Let_def prop_of_def CONTRAST_OFFSET_def
    by (simp only: parsed.simps l js_max.simps js_min.simps max.idem min.idem s d if_False simp_thms)
qed

lemma contrast_ratio_unparsed:
  "parseColor fg = Null \<or> parseColor bg = Null \<Longrightarrow> calculateContrastRatio fg bg = Num 0"
  by (auto simp: calculateContrastRatio_def)

lemma contrast_ratio_not_colour:
  assumes "(\<nexists>c. parseColor fg = Color c) \<or> (\<nexists>c. parseColor bg = Color c)"
  shows "calculateContrastRatio fg bg = Num 0 \<or> calculateContrastRatio fg bg = NaN"
proof (cases "parseColor fg = Null \<or> parseColor bg = Null")
  case True
  then show ?thesis using contrast_ratio_unparsed by blast
next
  case False
  have "calculateContrastRatio fg bg = NaN"
  proof (cases "\<nexists>c. parseColor fg = Color c")
    case True
    then obtain k where "parseColor fg = Inherited k" using False by (cases "parseColor fg") auto
    then show ?thesis using False
      by (simp add: calculateContrastRatio_def prop_of_def luminance_NaN CONTRAST_OFFSET_def Let_def)
  next
    case nf: False
    then have "\<nexists>c. parseColor bg = Color c" using assms by blast
    then obtain k where "parseColor bg = Inherited k" using False by (cases "parseColor bg") auto
    then show ?thesis using False
      by (simp add: calculateContrastRatio_def prop_of_def luminance_NaN CONTRAST_OFFSET_def Let_def)
  qed
  then show ?thesis by simp
qed

lemma if_None_Some: "((if c then None else x) = Some y) = (\<not> c \<and> x = Some y)"
  by simp

lemma if_Some_None: "((if c then Some x else None) = Some y) = (c \<and> x = y)"
  by auto

lemma processContrastElement_Some:
  assumes "processContrastElement e i = Some found"
  defines "rat \<equiv> calculateContrastRatio (color (computedStyle e)) (backgroundColor (computedStyle e))"
    and "minimum \<equiv> (if isLargeText (parseFloat (fontSize (computedStyle e))) (fontWeight (computedStyle e))
                     then CONTRAST_RATIO_LARGE_TEXT else CONTRAST_RATIO_NORMAL_TEXT)"
  shows "ratio found = rat" and "required found = minimum"
    and "fgColor found = color (computedStyle e)" and "bgColor found = backgroundColor (computedStyle e)"
    and "js_gt rat (Num 0)" and "js_lt rat (Num minimum)"
proof -
  let ?px = "parseFloat (fontSize (computedStyle e))"
  let ?large = "isLargeText ?px (fontWeight (computedStyle e))"
  have *: "js_gt rat (Num 0) \<and> js_lt rat (Num minimum) \<and> found = contrast_issue e i rat minimum ?large ?px"
    using assms(1) unfolding processContrastElement_def Let_def if_None_Some if_Some_None rat_def minimum_def
    by blast
  show "ratio found = rat" "required found = minimum"
    "fgColor found = color (computedStyle e)" "bgColor found = backgroundColor (computedStyle e)"
    using * by (simp_all add: contrast_issue_def)
  show "js_gt rat (Num 0)" "js_lt rat (Num minimum)" using * by simp_all
qed

lemma ratio_positive_parsed:
  assumes "js_gt (calculateContrastRatio fg bg) (Num 0)"
  shows "(\<exists>c. parseColor fg = Color c) \<and> (\<exists>c. parseColor bg = Color c)"
proof (rule ccontr)
  assume "\<not> ((\<exists>c. parseColor fg = Color c) \<and> (\<exists>c. parseColor bg = Color c))"
  then have "(\<nexists>c. parseColor fg = Color c) \<or> (\<nexists>c. parseColor bg = Color c)" by blast
  from contrast_ratio_not_colour[OF this] show False using assms by (auto simp: js_gt_def)
qed

lemma contrast_loop_sound:
  "found \<in> set (contrast_loop els acc i) \<Longrightarrow>
     found \<in> set acc \<or> (\<exists>e \<in> set els. \<exists>j. processContrastElement e j = Some found)"
proof (induction els arbitrary: acc i)
  case Nil
  then show ?case by simp
next
  case (Cons e els)
  show ?case
  proof (cases "processContrastElement e i")
    case None
    then show ?thesis using Cons.IH[of acc i] Cons.prems by auto
  next
    case (Some f)
    then show ?thesis using Cons.IH[of "acc @ [f]" "i + 1"] Cons.prems by auto
  qed
qed

lemma white_on_white:
  "processContrastElement (coloured ''rgb(255, 255, 255)'' ''rgb(255, 255, 255)'' (el ''P'' [] ''text'')) 0
     = Some (contrast_issue (coloured ''rgb(255, 255, 255)'' ''rgb(255, 255, 255)'' (el ''P'' [] ''text''))
               0 (Num 1) CONTRAST_RATIO_NORMAL_TEXT False (Num 16))"
proof -
  have p: "parseColor ''rgb(255, 255, 255)'' = Color \<lparr>r = Num 255, g = Num 255, b = Num 255, a = Num 1\<rparr>"
    by code_simp
  have rat: "calculateContrastRatio ''rgb(255, 255, 255)'' ''rgb(255, 255, 255)'' = Num 1"
    by (rule contrast_ratio_self[OF p]) simp_all
  have px: "parseFloat ''16px'' = Num 16" by code_simp
  have w: "parseInt ''400'' None = Num 400" by code_simp
  have large: "isLargeText (Num 16) ''400'' = False"
    by (simp add: isLargeText_def w js_ge_def LARGE_TEXT_MIN_SIZE_def LARGE_TEXT_MIN_SIZE_BOLD_def
          BOLD_FONT_WEIGHT_THRESHOLD_def)
  show ?thesis
    by (simp add: processContrastElement_def coloured_def el_def initial_style_def p rat px large
          prop_of_def js_gt_def CONTRAST_RATIO_NORMAL_TEXT_def Let_def)
qed

text \<open>The general facts behind C3: the ratio is 0 as soon as one of the two strings parses
  to \<^verbatim>\<open>null\<close>, and it is 0 or \<open>NaN\<close> as soon as one of them does not parse to a colour;
  an issue is returned only with a ratio strictly between 0 and the minimum that applies,
  so none is returned for an element one of whose colours does not parse to a colour, and
  every issue of \<^verbatim>\<open>checkContrast\<close> carries two colours that parse and such a ratio.\<close>

lemma not_a_colour_not_flagged:
  "(parseColor fg = Null \<or> parseColor bg = Null \<longrightarrow> calculateContrastRatio fg bg = Num 0)
   \<and> ((\<nexists>c. parseColor fg = Color c) \<or> (\<nexists>c. parseColor bg = Color c)
        \<longrightarrow> calculateContrastRatio fg bg = Num 0 \<or> calculateContrastRatio fg bg = NaN)
   \<and> (\<forall>found. processContrastElement e i = Some found \<longrightarrow>
         ratio found = calculateContrastRatio (color (computedStyle e)) (backgroundColor (computedStyle e))
         \<and> required found =
             (if isLargeText (parseFloat (fontSize (computedStyle e))) (fontWeight (computedStyle e))
              then CONTRAST_RATIO_LARGE_TEXT else CONTRAST_RATIO_NORMAL_TEXT)
         \<and> js_gt (ratio found) (Num 0) \<and> js_lt (ratio found) (Num (required found)))
   \<and> ((\<nexists>c. parseColor (color (computedStyle e)) = Color c)
        \<or> (\<nexists>c. parseColor (backgroundColor (computedStyle e)) = Color c)
        \<longrightarrow> processContrastElement e i = None)
   \<and> (\<forall>found \<in> set (issues (checkContrast doc)).
         (\<exists>c. parseColor (fgColor found) = Color c) \<and> (\<exists>c. parseColor (bgColor found) = Color c)
         \<and> js_gt (ratio found) (Num 0) \<and> js_lt (ratio found) (Num (required found)))"
proof (intro conjI allI impI ballI)
  assume "parseColor fg = Null \<or> parseColor bg = Null"
  then show "calculateContrastRatio fg bg = Num 0" by (rule contrast_ratio_unparsed)
next
  assume "(\<nexists>c. parseColor fg = Color c) \<or> (\<nexists>c. parseColor bg = Color c)"
  then show "calculateContrastRatio fg bg = Num 0 \<or> calculateContrastRatio fg bg = NaN"
    by (rule contrast_ratio_not_colour)
next
  assume n: "(\<nexists>c. parseColor (color (computedStyle e)) = Color c)
        \<or> (\<nexists>c. parseColor (backgroundColor (computedStyle e)) = Color c)"
  show "processContrastElement e i = None"
  proof (cases "processContrastElement e i")
    case (Some f)
    show ?thesis
      using ratio_positive_parsed[OF processContrastElement_Some(5)[OF Some]] n by blast
  qed simp
next
  fix found assume "found \<in> set (issues (checkContrast doc))"
  then obtain el j where s: "processContrastElement el j = Some found"
    using contrast_loop_sound[of found "textElements doc" "[]" 0]
    by (auto simp: checkContrast_def Let_def)
  note f = processContrastElement_Some[OF s]
  show "\<exists>c. parseColor (fgColor found) = Color c" "\<exists>c. parseColor (bgColor found) = Color c"
    using ratio_positive_parsed[OF f(5)] f(3,4) by simp_all
  show "js_gt (ratio found) (Num 0)" "js_lt (ratio found) (Num (required found))"
    using f(5,6) f(1,2) by simp_all
next
  fix found assume s: "processContrastElement e i = Some found"
  note f = processContrastElement_Some[OF s]
  show "ratio found = calculateContrastRatio (color (computedStyle e)) (backgroundColor (computedStyle e))"
    "required found =
             (if isLargeText (parseFloat (fontSize (computedStyle e))) (fontWeight (computedStyle e))
              then CONTRAST_RATIO_LARGE_TEXT else CONTRAST_RATIO_NORMAL_TEXT)"
    by (rule f(1) f(2))+
  show "js_gt (ratio found) (Num 0)" "js_lt (ratio found) (Num (required found))"
    using f(5,6) f(1,2) by simp_all
qed

lemma luminance_overflow: "getRelativeLuminance PosInf (Num 0) (Num 0) = PosInf"
  by (simp add: getRelativeLuminance_def getRGBLuminance_def colour_constants stored_range
        infinity_of_def)

subsection \<open>The loop of the heading detector\<close>


lemma heading_step_previousLevel [simp]:
  "previousLevel (heading_step h n st) = heading_level h"
  by (simp add: heading_step_def Let_def)

lemma skip_issue_fields [simp]:
  "issue (skip_issue h st) = LevelSkip (previousLevel st) (heading_level h)"
  "severity (skip_issue h st) = Moyenne"
  "element (skip_issue h st) = tagName h"
  "heading_text (skip_issue h st) = Some (trim (textContent h))"
  by (simp_all add: skip_issue_def)

lemma empty_issue_fields [simp]:
  "issue (empty_issue h n st) = EmptyHeading"
  "severity (empty_issue h n st) = Elevee"
  "element (empty_issue h n st) = tagName h @ '' '' @ string_of_nat (n + 1)"
  by (simp_all add: empty_issue_def)






lemma level_skipped_first: "level_skipped (Num 0) l = False"
  by (simp add: level_skipped_def js_gt_def)


lemma level_skipped_not_upward:
  assumes "js_le l p"
  shows "level_skipped p l = False"
proof -
  have "\<not> js_lt (Num 1) (stored x)" if "x \<le> 0" for x
    using that overflow_threshold_large by (simp add: stored_def)
  then show ?thesis
    using assms by (cases l; cases p) (simp_all add: level_skipped_def js_gt_def js_sub_def)
qed




lemma headings_loop_append:
  "headings_loop (xs @ ys) n st = headings_loop ys (n + length xs) (headings_loop xs n st)"
  by (induction xs arbitrary: n st) simp_all

lemma headings_loop_previousLevel:
  "previousLevel (headings_loop xs n st) =
     (if xs = [] then previousLevel st else heading_level (last xs))"
  by (induction xs arbitrary: n st) simp_all

lemma heading_step_no_skip:
  assumes "level_skipped (previousLevel st) (heading_level h) = False"
  shows "filter (\<lambda>x. is_LevelSkip (issue x)) (pushed (heading_step h n st))
       = filter (\<lambda>x. is_LevelSkip (issue x)) (pushed st)"
  using assms by (simp add: heading_step_def Let_def)

subsection \<open>Colour parser\<close>

text \<open>
  C7, as amended. When \<^verbatim>\<open>parseColor\<close> returns a colour, \<open>r\<close>, \<open>g\<close> and \<open>b\<close> are not
  negative. When the string was not matched by the rgb pattern (it is a hex colour or a
  named colour) they are integers from 0 to 255 and \<open>a\<close> is 1. When it was matched by the
  rgb pattern, each of them is what \<^verbatim>\<open>parseInt\<close> makes of the captured run of digits:
  the value of the run when that is below \<open>2 ^ 53\<close>, and otherwise a number of at least
  \<open>2 ^ 53\<close> or the infinity; \<open>a\<close> is \<^verbatim>\<open>parseFloat\<close> of the captured alpha, or 1 without
  an alpha. Nothing is clamped or checked against a range.
\<close>

theorem parseColor_components:
  assumes "parseColor s = Color c"
  shows "js_ge (r c) (Num 0) \<and> js_ge (g c) (Num 0) \<and> js_ge (b c) (Num 0)
    \<and> (rgbMatch s = None \<longrightarrow>
          (\<exists>n::nat. n \<le> 255 \<and> r c = Num (real n)) \<and> (\<exists>n::nat. n \<le> 255 \<and> g c = Num (real n))
          \<and> (\<exists>n::nat. n \<le> 255 \<and> b c = Num (real n)) \<and> a c = Num 1)
    \<and> (\<forall>g1 g2 g3 g4. rgbMatch s = Some (g1, g2, g3, g4) \<longrightarrow>
          (digits_value 10 g1 < 2 ^ 53 \<longrightarrow> r c = Num (of_int (digits_value 10 g1)))
          \<and> (2 ^ 53 \<le> digits_value 10 g1 \<longrightarrow> r c = PosInf \<or> (\<exists>v. 2 ^ 53 \<le> v \<and> r c = Num v))
          \<and> (digits_value 10 g2 < 2 ^ 53 \<longrightarrow> g c = Num (of_int (digits_value 10 g2)))
          \<and> (2 ^ 53 \<le> digits_value 10 g2 \<longrightarrow> g c = PosInf \<or> (\<exists>v. 2 ^ 53 \<le> v \<and> g c = Num v))
          \<and> (digits_value 10 g3 < 2 ^ 53 \<longrightarrow> b c = Num (of_int (digits_value 10 g3)))
          \<and> (2 ^ 53 \<le> digits_value 10 g3 \<longrightarrow> b c = PosInf \<or> (\<exists>v. 2 ^ 53 \<le> v \<and> b c = Num v))
          \<and> a c = (case g4 of Some x \<Rightarrow> parseFloat x | None \<Rightarrow> Num 1))"
proof (intro conjI impI allI)
  show "js_ge (r c) (Num 0)" "js_ge (g c) (Num 0)" "js_ge (b c) (Num 0)"
    using parseColor_nonneg[OF assms] by simp_all
next
  assume n: "rgbMatch s = None"
  obtain i j k :: nat where le: "i \<le> 255" "j \<le> 255" "k \<le> 255"
    and c: "c = \<lparr>r = Num (real i), g = Num (real j), b = Num (real k), a = Num 1\<rparr>"
    using parseColor_table_components[OF assms n] by blast
  show "\<exists>n::nat. n \<le> 255 \<and> r c = Num (real n)" using le c by auto
  show "\<exists>n::nat. n \<le> 255 \<and> g c = Num (real n)" using le c by auto
  show "\<exists>n::nat. n \<le> 255 \<and> b c = Num (real n)" using le c by auto
  show "a c = Num 1" using c by simp
next
  fix g1 g2 g3 g4 assume m: "rgbMatch s = Some (g1, g2, g3, g4)"
  have c: "c = \<lparr>r = double_of_int (digits_value 10 g1), g = double_of_int (digits_value 10 g2),
            b = double_of_int (digits_value 10 g3),
            a = (case g4 of Some x \<Rightarrow> parseFloat x | None \<Rightarrow> Num 1)\<rparr>"
    using assms
  proof (cases rule: parseColor_Color_cases)
    case (rgb h1 h2 h3 h4)
    then show ?thesis using m by simp
  qed (use m in simp_all)
  show "a c = (case g4 of Some x \<Rightarrow> parseFloat x | None \<Rightarrow> Num 1)" using c by simp
  { assume "digits_value 10 g1 < 2 ^ 53"
    then show "r c = Num (of_int (digits_value 10 g1))" using double_of_digits[of g1] c by simp }
  { assume "2 ^ 53 \<le> digits_value 10 g1"
    then show "r c = PosInf \<or> (\<exists>v. 2 ^ 53 \<le> v \<and> r c = Num v)" using double_of_digits[of g1] c by simp }
  { assume "digits_value 10 g2 < 2 ^ 53"
    then show "g c = Num (of_int (digits_value 10 g2))" using double_of_digits[of g2] c by simp }
  { assume "2 ^ 53 \<le> digits_value 10 g2"
    then show "g c = PosInf \<or> (\<exists>v. 2 ^ 53 \<le> v \<and> g c = Num v)" using double_of_digits[of g2] c by simp }
  { assume "digits_value 10 g3 < 2 ^ 53"
    then show "b c = Num (of_int (digits_value 10 g3))" using double_of_digits[of g3] c by simp }
  { assume "2 ^ 53 \<le> digits_value 10 g3"
    then show "b c = PosInf \<or> (\<exists>v. 2 ^ 53 \<le> v \<and> b c = Num v)" using double_of_digits[of g3] c by simp }
qed

theorem parseColor_components_witness:
  "parseColor ''#1a2B3c'' = Color \<lparr>r = Num 26, g = Num 43, b = Num 60, a = Num 1\<rparr>
   \<and> rgbMatch ''#1a2B3c'' = None
   \<and> (\<exists>n::nat. n \<le> 255 \<and> Num 26 = Num (real n))
   \<and> parseColor ''rgb(300, 0, 0)'' = Color \<lparr>r = Num 300, g = Num 0, b = Num 0, a = Num 1\<rparr>
   \<and> rgbMatch ''rgb(300, 0, 0)'' = Some (''300'', ''0'', ''0'', None)
   \<and> digits_value 10 ''300'' < 2 ^ 53
   \<and> Num 300 = Num (of_int (digits_value 10 ''300''))"
proof -
  have p: "parseColor ''#1a2B3c'' = Color \<lparr>r = Num 26, g = Num 43, b = Num 60, a = Num 1\<rparr>"
    by code_simp
  have m: "rgbMatch ''#1a2B3c'' = None" by code_simp
  have p2: "parseColor ''rgb(300, 0, 0)'' = Color \<lparr>r = Num 300, g = Num 0, b = Num 0, a = Num 1\<rparr>"
    by code_simp
  have m2: "rgbMatch ''rgb(300, 0, 0)'' = Some (''300'', ''0'', ''0'', None)" by code_simp
  have d: "digits_value 10 ''300'' < 2 ^ 53" by code_simp
  show ?thesis using parseColor_components [OF p] parseColor_components [OF p2] p m p2 m2 d by simp
qed

text \<open>C7 as stated fails: a component above 255 and an alpha above 1 are returned as
  they are written.\<close>

theorem parseColor_out_of_range_counterexample:
  "parseColor ''rgb(300, 0, 0)'' = Color \<lparr>r = Num 300, g = Num 0, b = Num 0, a = Num 1\<rparr>
   \<and> parseColor ''rgba(0, 0, 0, 5)'' = Color \<lparr>r = Num 0, g = Num 0, b = Num 0, a = Num 5\<rparr>"
  by code_simp

text \<open>A run of digits whose value is no double is rounded.\<close>

lemma parseColor_rounds:
  "parseColor ''rgb(9007199254740993, 0, 0)''
     = Color \<lparr>r = Num 9007199254740992, g = Num 0, b = Num 0, a = Num 1\<rparr>"
  by code_simp

text \<open>
  C8. The claim: \<^verbatim>\<open>#fff\<close>, \<^verbatim>\<open>#ffffff\<close> and \<^verbatim>\<open>white\<close> parse to the same colour, and
  every keyword outside the table of five names gives \<^verbatim>\<open>null\<close>. The look-up in the
  table is a property access on an object literal, which also finds inherited members:
  for the strings \<^verbatim>\<open>constructor\<close> and \<^verbatim>\<open>__proto__\<close> the parser returns the inherited
  member, which is neither \<^verbatim>\<open>null\<close> nor a colour.
\<close>

theorem parseColor_inherited_member:
  "parseColor ''constructor'' = Inherited ''constructor''
   \<and> parseColor ''__proto__'' = Inherited ''__proto__''"
  by code_simp

text \<open>The other statements of C8 hold.\<close>

lemma parseColor_white_forms:
  "parseColor ''#fff'' = Color \<lparr>r = Num 255, g = Num 255, b = Num 255, a = Num 1\<rparr>"
  "parseColor ''#ffffff'' = Color \<lparr>r = Num 255, g = Num 255, b = Num 255, a = Num 1\<rparr>"
  "parseColor ''white'' = Color \<lparr>r = Num 255, g = Num 255, b = Num 255, a = Num 1\<rparr>"
  "parseColor ''#FFF'' = parseColor ''#fff''"
  "parseColor ''WHITE'' = parseColor ''white''"
  "parseColor ''transparent'' = Null"
  "parseColor ''not-a-color'' = Null"
  by code_simp+

subsection \<open>Contrast ratio\<close>

text \<open>
  C9, as amended. \<^verbatim>\<open>calculateContrastRatio\<close> is symmetric in its two arguments; a string
  that parses to a colour whose three components are at most \<open>10 ^ 100\<close> has ratio 1
  against itself; black against white has ratio 21; the relative luminance of black is 0
  and that of white is 1. The bound keeps the luminance finite.
\<close>

theorem calculateContrastRatio_properties:
  "(\<forall>x y. calculateContrastRatio x y = calculateContrastRatio y x)
   \<and> (\<forall>x c. parseColor x = Color c \<and> js_le (r c) (Num (10 ^ 100)) \<and> js_le (g c) (Num (10 ^ 100))
              \<and> js_le (b c) (Num (10 ^ 100))
            \<longrightarrow> calculateContrastRatio x x = Num 1)
   \<and> calculateContrastRatio ''#000000'' ''#ffffff'' = Num 21
   \<and> getRelativeLuminance (Num 0) (Num 0) (Num 0) = Num 0
   \<and> getRelativeLuminance (Num 255) (Num 255) (Num 255) = Num 1"
proof (intro conjI allI impI)
  fix x y
  show "calculateContrastRatio x y = calculateContrastRatio y x"
    by (simp add: calculateContrastRatio_def Let_def js_max_commute js_min_commute disj_commute)
next
  fix x c
  assume "parseColor x = Color c \<and> js_le (r c) (Num (10 ^ 100)) \<and> js_le (g c) (Num (10 ^ 100))
            \<and> js_le (b c) (Num (10 ^ 100))"
  then show "calculateContrastRatio x x = Num 1" using contrast_ratio_self by blast
next
  have k: "parseColor ''#000000'' = Color \<lparr>r = Num 0, g = Num 0, b = Num 0, a = Num 1\<rparr>"
    by code_simp
  have w: "parseColor ''#ffffff'' = Color \<lparr>r = Num 255, g = Num 255, b = Num 255, a = Num 1\<rparr>"
    by code_simp
  show "calculateContrastRatio ''#000000'' ''#ffffff'' = Num 21"
    by (simp add: calculateContrastRatio_def k w prop_of_def luminance_black luminance_white
          CONTRAST_OFFSET_def stored_range)
qed (rule luminance_black luminance_white)+

theorem calculateContrastRatio_properties_witness:
  "parseColor ''rgb(12, 34, 56)'' = Color \<lparr>r = Num 12, g = Num 34, b = Num 56, a = Num 1\<rparr>
   \<and> js_le (Num 12) (Num (10 ^ 100)) \<and> js_le (Num 34) (Num (10 ^ 100)) \<and> js_le (Num 56) (Num (10 ^ 100))
   \<and> calculateContrastRatio ''rgb(12, 34, 56)'' ''rgb(12, 34, 56)'' = Num 1"
proof -
  have p: "parseColor ''rgb(12, 34, 56)'' = Color \<lparr>r = Num 12, g = Num 34, b = Num 56, a = Num 1\<rparr>"
    by code_simp
  have "calculateContrastRatio ''rgb(12, 34, 56)'' ''rgb(12, 34, 56)'' = Num 1"
    using calculateContrastRatio_properties p by force
  then show ?thesis using p by simp
qed

text \<open>C9 as stated fails: a component of 400 digits is parsed to the infinity, the
  luminance of the colour is infinite, and its ratio against itself, an infinity over an
  infinity, is \<open>NaN\<close>.\<close>

theorem contrast_ratio_overflow_counterexample:
  "parseColor (''rgb('' @ replicate 400 CHR ''9'' @ '', 0, 0)'')
     = Color \<lparr>r = PosInf, g = Num 0, b = Num 0, a = Num 1\<rparr>
   \<and> calculateContrastRatio (''rgb('' @ replicate 400 CHR ''9'' @ '', 0, 0)'')
        (''rgb('' @ replicate 400 CHR ''9'' @ '', 0, 0)'') = NaN"
proof -
  let ?x = "''rgb('' @ replicate 400 CHR ''9'' @ '', 0, 0)''"
  have p: "parseColor ?x = Color \<lparr>r = PosInf, g = Num 0, b = Num 0, a = Num 1\<rparr>"
    by code_simp
  have "calculateContrastRatio ?x ?x = NaN"
    unfolding calculateContrastRatio_def p Let_def prop_of_def
    by (simp add: luminance_overflow)
  with p show ?thesis by simp
qed

text \<open>
  C3. The claim: \<^verbatim>\<open>calculateContrastRatio\<close> returns 0 whenever one of the two strings
  fails to parse, and an element with such a colour is not flagged. The test of the
  function is \<^verbatim>\<open>!fg || !bg\<close>. For a string that \<^verbatim>\<open>parseColor\<close> answers with an inherited
  member (C8) the test does not fire, the components read off the member are
  \<^verbatim>\<open>undefined\<close>, and the ratio is \<open>NaN\<close>, not 0. A parse to \<^verbatim>\<open>null\<close> does give 0, and
  in both cases no issue is reported (lemma \<open>not_a_colour_not_flagged\<close>).
\<close>

theorem contrast_ratio_of_inherited_member:
  "parseColor ''constructor'' = Inherited ''constructor''
   \<and> calculateContrastRatio ''constructor'' ''#000000'' = NaN
   \<and> calculateContrastRatio ''#000000'' ''__proto__'' = NaN
   \<and> calculateContrastRatio ''hsl(0, 0%, 50%)'' ''#000000'' = Num 0
   \<and> processContrastElement (coloured ''constructor'' ''#000000'' (el ''P'' [] ''text'')) 0 = None
   \<and> processContrastElement (coloured ''#000000'' ''constructor'' (el ''P'' [] ''text'')) 0 = None"
  by code_simp

subsection \<open>Language detector\<close>

text \<open>
  C5. The claim: no detector throws when a single-instance root element is absent; for
  every document, also one without an html element, \<^verbatim>\<open>checkLanguage\<close> returns a
  category result. The code dereferences the result of \<^verbatim>\<open>querySelector("html")\<close>
  without a test: on a document whose root is an svg element the call ends in a
  \<^verbatim>\<open>TypeError\<close> and no result is returned.
\<close>

theorem checkLanguage_throws_without_html:
  "checkLanguage [el ''svg'' [] []] = Inl TypeError"
  by code_simp

text \<open>
  C6, as amended. For a document with an html element, \<^verbatim>\<open>checkLanguage\<close> tests the presence
  of the attribute lang and nothing else: an html element without the attribute gives
  one issue of high severity and \<open>passed = 0\<close>; an html element that has the attribute,
  whatever its value, the empty string included, gives no issue and \<open>passed = 1\<close>;
  \<open>total\<close> is 1.
\<close>

theorem checkLanguage_presence:
  assumes "querySelector doc [''HTML''] = Some h"
  shows "checkLanguage doc =
           Inr \<lparr>total = 1,
                issues = (if map_of (attributes h) ''lang'' = None then [lang_issue] else []),
                passed = (if map_of (attributes h) ''lang'' = None then 0 else 1)\<rparr>
         \<and> severity lang_issue = Elevee"
  using assms by (simp add: checkLanguage_def hasAttribute_def lang_issue_def)

theorem checkLanguage_presence_witness:
  "querySelector [el ''HTML'' [(''lang'', ''fr'')] []] [''HTML'']
     = Some (el ''HTML'' [(''lang'', ''fr'')] [])
   \<and> checkLanguage [el ''HTML'' [(''lang'', ''fr'')] []]
     = Inr \<lparr>total = 1, issues = [], passed = 1\<rparr>"
proof -
  have q: "querySelector [el ''HTML'' [(''lang'', ''fr'')] []] [''HTML'']
             = Some (el ''HTML'' [(''lang'', ''fr'')] [])"
    by (simp add: querySelector_def querySelectorAll_def el_def)
  show ?thesis
    using q checkLanguage_presence [OF q] by (simp add: el_def)
qed

text \<open>
  C6 as stated fails: an html element with \<^verbatim>\<open>lang=""\<close> is not flagged, while an html
  element without the attribute is.
\<close>

theorem checkLanguage_empty_lang_counterexample:
  "checkLanguage [el ''HTML'' [(''lang'', [])] []]
     = Inr \<lparr>total = 1, issues = [], passed = 1\<rparr>
   \<and> checkLanguage [el ''HTML'' [] []]
     = Inr \<lparr>total = 1, issues = [lang_issue], passed = 0\<rparr>"
  by code_simp

subsection \<open>Heading detector\<close>


text \<open>
  C10. The loop reaches the heading at position \<open>i\<close> in the state \<open>st\<close> left by the
  headings before it, and the issues of the detector are those of the loop continued from
  that turn. When the heading is the first one, or its level is at most the level of the
  heading just before it, the turn adds no skip issue. So a page that starts at H4 or at
  H6, and H4 followed by H2, have no skip issue.
\<close>

theorem level_skip_only_upward:
  "(let hs = querySelectorAll doc heading_tags;
        st0 = initial_heading_state (length (querySelectorAll doc [''H1'']));
        st = headings_loop (take i hs) 0 st0
    in i < length hs \<longrightarrow>
         issues (checkHeadings doc)
           = pushed (headings_loop (drop (Suc i) hs) (Suc i) (heading_step (hs ! i) i st))
         \<and> (i = 0 \<or> js_le (heading_level (hs ! i)) (heading_level (hs ! (i - 1))) \<longrightarrow>
              filter (\<lambda>x. is_LevelSkip (issue x)) (pushed (heading_step (hs ! i) i st))
                = filter (\<lambda>x. is_LevelSkip (issue x)) (pushed st)))
   \<and> filter (\<lambda>x. is_LevelSkip (issue x)) (issues (checkHeadings [el ''H4'' [] ''Title''])) = []
   \<and> filter (\<lambda>x. is_LevelSkip (issue x)) (issues (checkHeadings [el ''H6'' [] ''Title''])) = []
   \<and> filter (\<lambda>x. is_LevelSkip (issue x))
        (issues (checkHeadings [el ''H4'' [] ''Title'', el ''H2'' [] ''Part''])) = []"
proof -
  let ?hs = "querySelectorAll doc heading_tags"
  let ?init = "initial_heading_state (length (querySelectorAll doc [''H1'']))"
  let ?st = "headings_loop (take i ?hs) 0 ?init"
  have run: "issues (checkHeadings doc)
           = pushed (headings_loop (drop (Suc i) ?hs) (Suc i) (heading_step (?hs ! i) i ?st))"
    if i: "i < length ?hs"
  proof -
    have split: "take i ?hs @ (?hs ! i # drop (Suc i) ?hs) = ?hs"
      by (rule id_take_nth_drop[OF i, symmetric])
    have len: "length (take i ?hs) = i" using i by simp
    have "headings_loop (take i ?hs @ (?hs ! i # drop (Suc i) ?hs)) 0 ?init
        = headings_loop (?hs ! i # drop (Suc i) ?hs) (0 + length (take i ?hs)) ?st"
      by (rule headings_loop_append)
    then have "headings_loop ?hs 0 ?init
        = headings_loop (drop (Suc i) ?hs) (Suc i) (heading_step (?hs ! i) i ?st)"
      unfolding split len by simp
    then show ?thesis by (simp add: checkHeadings_def Let_def)
  qed
  have keep: "filter (\<lambda>x. is_LevelSkip (issue x)) (pushed (heading_step (?hs ! i) i ?st))
                = filter (\<lambda>x. is_LevelSkip (issue x)) (pushed ?st)"
    if i: "i < length ?hs"
      and c: "i = 0 \<or> js_le (heading_level (?hs ! i)) (heading_level (?hs ! (i - 1)))"
  proof (rule heading_step_no_skip)
    show "level_skipped (previousLevel ?st) (heading_level (?hs ! i)) = False"
    proof (cases "i = 0")
      case True
      then show ?thesis
        by (simp add: headings_loop_previousLevel initial_heading_state_def level_skipped_first)
    next
      case False
      then have ne: "take i ?hs \<noteq> []" using i by (auto simp: take_eq_Nil)
      have "last (take i ?hs) = take i ?hs ! (length (take i ?hs) - 1)"
        by (rule last_conv_nth[OF ne])
      also have "\<dots> = ?hs ! (i - 1)" using i False by simp
      finally have "last (take i ?hs) = ?hs ! (i - 1)" "take i ?hs \<noteq> []"
        using ne by simp_all
      then have "previousLevel ?st = heading_level (?hs ! (i - 1))"
        by (simp add: headings_loop_previousLevel)
      then show ?thesis using c False by (simp add: level_skipped_not_upward)
    qed
  qed
  have e: "filter (\<lambda>x. is_LevelSkip (issue x)) (issues (checkHeadings [el ''H4'' [] ''Title''])) = []"
    "filter (\<lambda>x. is_LevelSkip (issue x)) (issues (checkHeadings [el ''H6'' [] ''Title''])) = []"
    "filter (\<lambda>x. is_LevelSkip (issue x))
        (issues (checkHeadings [el ''H4'' [] ''Title'', el ''H2'' [] ''Part''])) = []"
    by code_simp+
  show ?thesis
    unfolding Let_def using run keep e by blast
qed

theorem level_skip_only_upward_witness:
  "querySelectorAll [el ''H4'' [] ''Title'', el ''H2'' [] ''Part''] heading_tags
     = [el ''H4'' [] ''Title'', el ''H2'' [] ''Part'']
   \<and> js_le (heading_level (el ''H2'' [] ''Part'')) (heading_level (el ''H4'' [] ''Title''))
   \<and> filter (\<lambda>x. is_LevelSkip (issue x))
         (pushed (heading_step (el ''H2'' [] ''Part'') 1
            (headings_loop [el ''H4'' [] ''Title''] 0 (initial_heading_state 0))))
       = filter (\<lambda>x. is_LevelSkip (issue x))
           (pushed (headings_loop [el ''H4'' [] ''Title''] 0 (initial_heading_state 0)))"
proof -
  let ?doc = "[el ''H4'' [] ''Title'', el ''H2'' [] ''Part'']"
  have q: "querySelectorAll ?doc heading_tags = ?doc" by code_simp
  have n: "length (querySelectorAll ?doc [''H1'']) = 0" by code_simp
  have l: "js_le (heading_level (el ''H2'' [] ''Part'')) (heading_level (el ''H4'' [] ''Title''))"
    by code_simp
  show ?thesis
    using level_skip_only_upward[of ?doc 1] l
    unfolding Let_def q n by simp
qed

subsection \<open>Counts of a category result\<close>

text \<open>
  C1. The claim: in every category result \<open>passed = total - length issues\<close>,
  \<open>0 \<le> total\<close> and \<open>length issues \<le> total\<close>, also for the headings. The heading detector
  counts the headings in \<open>total\<close> and pushes the page-level issue in \<open>issues\<close>: on a
  page without any heading \<open>total\<close> is 0, there is one issue and \<open>passed\<close> is \<open>-1\<close>.
\<close>

theorem checkHeadings_negative_passed:
  "total (checkHeadings [el ''P'' [] ''text'']) = 0
   \<and> length (issues (checkHeadings [el ''P'' [] ''text''])) = 1
   \<and> passed (checkHeadings [el ''P'' [] ''text'']) = - 1"
  by code_simp

end
